theory Spec2Isabelle
  imports Main
begin

section \<open>Refund signal handlers of the commerce app (lms/djangoapps/commerce/signals.py)\<close>

text \<open>
  The module reacts to the signals \<open>REFUND_ORDER\<close> and \<open>REFUND_ENTITLEMENT\<close>, opens refunds at
  the external commerce service, tries to approve them and files a support ticket for the
  refunds that still need a manual approval. Everything it does is an effect: calls to
  collaborators that live outside the file, log records, and one mutation of a Python list.

  The embedding makes these effects explicit.
  \<^item> The \<open>world\<close> holds the \<open>trace\<close> of everything observable that has happened so far (every
    call to a collaborator with its outcome, every log record, in order) and the \<open>heap\<close> of
    Python list objects.
  \<^item> A collaborator is a field of the record \<open>env\<close>. Its answer may depend on the whole
    history and it may raise: it is a function from the trace to \<open>exn + 'a\<close>.
  \<^item> A Python function is a \<open>prog\<close>: a function from the world to a result (\<open>Inl\<close> a raised
    exception, \<open>Inr\<close> a returned value) and the new world.
  \<^item> An exception is or is not an instance of \<open>Exception\<close> (\<open>SystemExit\<close>, \<open>KeyboardInterrupt\<close>
    and \<open>GeneratorExit\<close> are not). A bare \<open>except\<close> catches every exception,
    \<open>except Exception\<close> only the instances of \<open>Exception\<close>: the two are modelled by
    \<open>try_except\<close> and \<open>try_except_Exception\<close>.
  \<^item> The library functions \<open>json.dumps\<close> and \<open>urljoin\<close> are fields of \<open>env\<close> as well and may
    raise (\<open>urljoin\<close> raises \<open>ValueError\<close> on a malformed URL), and \<open>str(exc)\<close> may raise.
  Text is taken as Python's \<open>unicode\<close> (the module imports \<open>unicode_literals\<close>), for which
  \<open>format\<close> and \<open>join\<close> do not raise. Attribute reads (\<open>course_product.mode\<close>,
  \<open>student.email\<close>, the settings), the \<open>logging\<close> calls and the translation function \<open>_\<close>
  (taken as the identity) do not raise in the model.
\<close>

subsection \<open>Data\<close>

record user =
  user_id :: int
  username :: string
  email :: string
  profile_name :: string

text \<open>What \<open>getattr(request, 'user', None)\<close> yields: \<open>None\<close>, an \<open>AnonymousUser\<close> or a user.\<close>

datatype request_user = NoUser | AnonymousUser | RequestUser user

text \<open>
  A course enrollment or a course entitlement, with every attribute the module reads from
  either of them (the two classes are duck-typed by \<open>_process_refund\<close>).
\<close>

record course_product =
  owner :: user
  mode :: string
  course_id :: string
  uuid :: string
  order_number :: string

text \<open>
  Exceptions. \<open>OtherException\<close> stands for any other instance of \<open>Exception\<close> with its message,
  \<open>UnprintableException\<close> for an instance of \<open>Exception\<close> on which \<open>str()\<close> raises (in Python 2,
  one whose message is a unicode string with a character outside ASCII). The last three are
  the exceptions that are not instances of \<open>Exception\<close>.
\<close>

datatype exn =
    NotImplementedError string
  | ValueError string
  | UnicodeEncodeError string
  | OtherException string
  | UnprintableException string
  | SystemExit
  | KeyboardInterrupt
  | GeneratorExit

text \<open>\<open>isinstance(e, Exception)\<close>: what \<open>except Exception\<close> catches.\<close>

fun is_Exception :: "exn \<Rightarrow> bool" where
  "is_Exception SystemExit = False"
| "is_Exception KeyboardInterrupt = False"
| "is_Exception GeneratorExit = False"
| "is_Exception e = True"

text \<open>\<open>str(exc)\<close>.\<close>

fun exn_str :: "exn \<Rightarrow> exn + string" where
  "exn_str (NotImplementedError m) = Inr m"
| "exn_str (ValueError m) = Inr m"
| "exn_str (UnicodeEncodeError m) = Inr m"
| "exn_str (OtherException m) = Inr m"
| "exn_str (UnprintableException m) = Inl (UnicodeEncodeError ''ordinal not in range(128)'')"
| "exn_str SystemExit = Inr []"
| "exn_str KeyboardInterrupt = Inr []"
| "exn_str GeneratorExit = Inr []"

text \<open>
  The \<open>data\<close> dictionary of \<open>create_zendesk_ticket\<close>; \<open>json.dumps\<close> turns it into the payload
  of the request.
\<close>

record ticket =
  requester_name :: string
  requester_email :: string
  subject :: string
  comment_body :: string
  ticket_tags :: "string list"

datatype call =
    IsCommerceServiceConfigured
  | Refundable course_product
  | IsEntitlementRefundable course_product
  | GetCurrentRequest
  | GetServiceUser string
  | EcommerceApiClient
  | RefundsPost "(string \<times> string) list"
  | RefundProcessPut int
  | CommerceConfigurationCurrent
  | IsRequestInThemedSite
  | GetValue string string
  | RequestsPost string string string string

datatype outcome =
    Raised exn
  | RUnit
  | RBool bool
  | RUser request_user
  | RIds "int list"
  | RStr string
  | RResponse int string

datatype log_level = DEBUG | INFO | WARNING | ERROR

datatype log_arg = AInt int | AStr string | AIds "int list"

text \<open>
  \<open>Log level exc_info template args\<close> is one log record; \<open>log.exception\<close> is level \<open>ERROR\<close>
  with \<open>exc_info\<close> set.
\<close>

datatype event =
    Call call outcome
  | Log log_level bool string "log_arg list"

record world =
  trace :: "event list"
  heap :: "string list list"

text \<open>
  The collaborators, the library functions and the Django settings the module reads.
  \<open>set_iteration xs\<close> is the order in which Python iterates over \<open>set(xs)\<close>, which the language
  does not specify.
\<close>

record env =
  is_commerce_service_configured :: "event list \<Rightarrow> exn + bool"
  refundable :: "event list \<Rightarrow> course_product \<Rightarrow> exn + bool"
  is_entitlement_refundable :: "event list \<Rightarrow> course_product \<Rightarrow> exn + bool"
  get_current_request_user :: "event list \<Rightarrow> exn + request_user"
  get_service_user :: "event list \<Rightarrow> string \<Rightarrow> exn + unit"
  ecommerce_api_client :: "event list \<Rightarrow> exn + unit"
  refunds_post :: "event list \<Rightarrow> (string \<times> string) list \<Rightarrow> exn + int list"
  refund_process_put :: "event list \<Rightarrow> int \<Rightarrow> exn + unit"
  enable_automatic_refund_approval :: "event list \<Rightarrow> exn + bool"
  is_request_in_themed_site :: "event list \<Rightarrow> exn + bool"
  get_value :: "event list \<Rightarrow> string \<Rightarrow> string \<Rightarrow> exn + string"
  requests_post :: "event list \<Rightarrow> string \<Rightarrow> string \<Rightarrow> string \<Rightarrow> string \<Rightarrow> exn + int \<times> string"
  urljoin :: "string \<Rightarrow> string \<Rightarrow> exn + string"
  json_dumps :: "ticket \<Rightarrow> exn + string"
  set_iteration :: "string list \<Rightarrow> string list"
  ECOMMERCE_SERVICE_WORKER_USERNAME :: string
  ECOMMERCE_PUBLIC_URL_ROOT :: string
  ZENDESK_URL :: "string option"
  ZENDESK_USER :: "string option"
  ZENDESK_API_KEY :: "string option"

subsection \<open>Programs: state, exceptions, calls, logging, list objects\<close>

type_synonym 'a prog = "world \<Rightarrow> (exn + 'a) \<times> world"

definition returns :: "'a \<Rightarrow> 'a prog" where
  "returns v w = (Inr v, w)"

definition raise :: "exn \<Rightarrow> 'a prog" where
  "raise e w = (Inl e, w)"

definition and_then :: "'a prog \<Rightarrow> ('a \<Rightarrow> 'b prog) \<Rightarrow> 'b prog" where
  "and_then m f w = (case m w of (Inl e, w') \<Rightarrow> (Inl e, w') | (Inr v, w') \<Rightarrow> f v w')"

text \<open>The value of an expression that has no effect but may raise.\<close>

definition evaluate :: "exn + 'a \<Rightarrow> 'a prog" where
  "evaluate r w = (r, w)"

text \<open>\<open>try: m  except: h\<close>, the bare \<open>except\<close> that catches every exception.\<close>

definition try_except :: "'a prog \<Rightarrow> (exn \<Rightarrow> 'a prog) \<Rightarrow> 'a prog" where
  "try_except m h w = (case m w of (Inl e, w') \<Rightarrow> h e w' | (Inr v, w') \<Rightarrow> (Inr v, w'))"

text \<open>
  \<open>try: m  except Exception as e: h\<close>: an exception that is not an instance of \<open>Exception\<close>
  is not caught.
\<close>

definition try_except_Exception :: "'a prog \<Rightarrow> (exn \<Rightarrow> 'a prog) \<Rightarrow> 'a prog" where
  "try_except_Exception m h w =
     (case m w of
        (Inl e, w') \<Rightarrow> if is_Exception e then h e w' else (Inl e, w')
      | (Inr v, w') \<Rightarrow> (Inr v, w'))"

definition emit :: "event \<Rightarrow> world \<Rightarrow> world" where
  "emit ev w = w\<lparr>trace := trace w @ [ev]\<rparr>"

text \<open>
  A call to a collaborator: the collaborator answers from the history, and the call and its
  outcome are appended to the trace.
\<close>

definition perform :: "call \<Rightarrow> ('a \<Rightarrow> outcome) \<Rightarrow> (event list \<Rightarrow> exn + 'a) \<Rightarrow> 'a prog" where
  "perform c enc f w =
     (let r = f (trace w)
      in (r, emit (Call c (case r of Inl e \<Rightarrow> Raised e | Inr v \<Rightarrow> enc v)) w))"

definition log :: "log_level \<Rightarrow> bool \<Rightarrow> string \<Rightarrow> log_arg list \<Rightarrow> unit prog" where
  "log lvl exc_info template args w = (Inr (), emit (Log lvl exc_info template args) w)"

text \<open>
  Python list objects live in the heap; a reference is an index into it. A reference the
  program holds is always valid in Python; the model reads the empty list at any other.
\<close>

definition list_at :: "world \<Rightarrow> nat \<Rightarrow> string list" where
  "list_at w a = (if a < length (heap w) then heap w ! a else [])"

definition new_list :: "string list \<Rightarrow> nat prog" where
  "new_list xs w = (Inr (length (heap w)), w\<lparr>heap := heap w @ [xs]\<rparr>)"

definition read_list :: "nat \<Rightarrow> (string list) prog" where
  "read_list a w = (Inr (list_at w a), w)"

definition list_append :: "nat \<Rightarrow> string \<Rightarrow> unit prog" where
  "list_append a x w = (Inr (), w\<lparr>heap := (heap w)[a := list_at w a @ [x]]\<rparr>)"

subsection \<open>String helpers\<close>

function str_nat :: "nat \<Rightarrow> string" where
  "str_nat n =
     (if n < 10 then [''0123456789'' ! n]
      else str_nat (n div 10) @ [''0123456789'' ! (n mod 10)])"
  by pat_completeness auto
termination
  by (relation "measure id") auto

declare str_nat.simps [simp del]

definition str_int :: "int \<Rightarrow> string" where
  "str_int i = (if i < 0 then ''-'' @ str_nat (nat (- i)) else str_nat (nat i))"

fun join :: "string \<Rightarrow> string list \<Rightarrow> string" where
  "join sep [] = []"
| "join sep [x] = x"
| "join sep (x # y # ys) = x @ sep @ join sep (y # ys)"

text \<open>Python truthiness of a setting that is \<open>None\<close> or a string.\<close>

fun truthy :: "string option \<Rightarrow> bool" where
  "truthy None = False"
| "truthy (Some s) = (s \<noteq> [])"

fun setting :: "string option \<Rightarrow> string" where
  "setting None = ''None''"
| "setting (Some s) = s"

subsection \<open>The module\<close>

text \<open>\<open>get_request_user\<close>: the user of the current request, \<open>None\<close> when there is none.\<close>

definition get_request_user :: "env \<Rightarrow> request_user prog" where
  "get_request_user env = perform GetCurrentRequest RUser (get_current_request_user env)"

text \<open>
  \<open>create_zendesk_ticket\<close>. \<open>tags\<close> is \<open>None\<close> or a reference to the caller's list.
  \<open>list(tags or [])\<close> allocates a new list, \<open>append\<close> mutates the object \<open>tags\<close> is then
  bound to, \<open>list(set(tags))\<close> allocates once more, in the order \<open>set_iteration\<close> gives.
  \<open>json.dumps\<close> and \<open>urljoin\<close> are evaluated before the \<open>try\<close> statement (lines 260 and 263),
  so what they raise leaves the function; the \<open>try\<close> statement (lines 268 to 278) holds the
  request alone and has \<open>except Exception\<close>.
\<close>

definition create_zendesk_ticket ::
    "env \<Rightarrow> string \<Rightarrow> string \<Rightarrow> string \<Rightarrow> string \<Rightarrow> nat option \<Rightarrow> unit prog" where
  "create_zendesk_ticket env name mail subj body tags =
     (if \<not> (truthy (ZENDESK_URL env) \<and> truthy (ZENDESK_USER env) \<and> truthy (ZENDESK_API_KEY env))
      then log DEBUG False ''Zendesk is not configured. Cannot create a ticket.'' []
      else
        and_then (case tags of None \<Rightarrow> returns [] | Some a \<Rightarrow> read_list a) (\<lambda>given.
        and_then (new_list (if given = [] then [] else given)) (\<lambda>tags1.
        and_then (list_append tags1 ''LMS'') (\<lambda>_.
        and_then (read_list tags1) (\<lambda>appended.
        and_then (new_list (set_iteration env appended)) (\<lambda>tags2.
        and_then (read_list tags2) (\<lambda>final_tags.
        let data = \<lparr>requester_name = name, requester_email = mail, subject = subj,
                    comment_body = body, ticket_tags = final_tags\<rparr>
        in
        and_then (evaluate (json_dumps env data)) (\<lambda>payload.
        and_then (evaluate (urljoin env (setting (ZENDESK_URL env)) ''/api/v2/tickets.json'')) (\<lambda>url.
        let usr = setting (ZENDESK_USER env) @ ''/token'';
            pwd = setting (ZENDESK_API_KEY env)
        in try_except_Exception
             (and_then
                (perform (RequestsPost url payload usr pwd) (\<lambda>(status, content). RResponse status content)
                   (\<lambda>h. requests_post env h url payload usr pwd))
                (\<lambda>(status_code, content).
                   if status_code \<noteq> 201
                   then log ERROR False ''Failed to create ticket. Status: [%d], Body: [%s]''
                          [AInt status_code, AStr content]
                   else log DEBUG False ''Successfully created ticket.'' []))
             (\<lambda>e. log ERROR True ''Failed to create ticket.'' []))))))))))"

text \<open>
  The list comprehension of \<open>generate_refund_notification_body\<close>: one \<open>urljoin\<close> for each
  refund id, in order; the first that raises ends it.
\<close>

fun refund_urls :: "env \<Rightarrow> string \<Rightarrow> int list \<Rightarrow> exn + string list" where
  "refund_urls env ecommerce_url_root [] = Inr []"
| "refund_urls env ecommerce_url_root (refund_id # rest) =
     (case urljoin env ecommerce_url_root (''/dashboard/refunds/'' @ str_int refund_id @ ''/'') of
        Inl e \<Rightarrow> Inl e
      | Inr url \<Rightarrow>
          (case refund_urls env ecommerce_url_root rest of
             Inl e \<Rightarrow> Inl e
           | Inr urls \<Rightarrow> Inr (url # urls)))"

definition generate_refund_notification_body :: "env \<Rightarrow> user \<Rightarrow> int list \<Rightarrow> string prog" where
  "generate_refund_notification_body env student refund_ids =
     (let msg = ''A refund request has been initiated for '' @ username student @ '' ('' @
                email student @ ''). To process this request, please visit the link(s) below.''
      in and_then
           (perform (GetValue ''ECOMMERCE_PUBLIC_URL_ROOT'' (ECOMMERCE_PUBLIC_URL_ROOT env)) RStr
              (\<lambda>h. get_value env h ''ECOMMERCE_PUBLIC_URL_ROOT'' (ECOMMERCE_PUBLIC_URL_ROOT env)))
           (\<lambda>ecommerce_url_root.
              and_then (evaluate (refund_urls env ecommerce_url_root refund_ids)) (\<lambda>urls.
                returns (msg @ [CHR 0x0A, CHR 0x0A] @ join [CHR 0x0A] urls))))"

definition send_refund_notification :: "env \<Rightarrow> course_product \<Rightarrow> int list \<Rightarrow> unit prog" where
  "send_refund_notification env course_product refund_ids =
     and_then (new_list [''auto_refund'']) (\<lambda>tags.
     and_then (perform IsRequestInThemedSite RBool (is_request_in_themed_site env)) (\<lambda>themed.
       if themed
       then raise (NotImplementedError ''Unable to send refund processing emails to support teams.'')
       else
         let student = owner course_product;
             subj = ''[Refund] User-Requested Refund''
         in and_then (generate_refund_notification_body env student refund_ids) (\<lambda>body.
              let name = (if profile_name student \<noteq> [] then profile_name student
                          else username student)
              in create_zendesk_ticket env name (email student) subj body (Some tags))))"

text \<open>
  The loop of \<open>_process_refund\<close> (lines 105 to 114): one approval call for each refund id; the
  bare \<open>except\<close> logs the failure and appends the id to \<open>refunds_requiring_approval\<close>.
\<close>

fun approve_refunds :: "env \<Rightarrow> int list \<Rightarrow> int list \<Rightarrow> (int list) prog" where
  "approve_refunds env [] refunds_requiring_approval = returns refunds_requiring_approval"
| "approve_refunds env (refund_id # rest) refunds_requiring_approval =
     and_then
       (try_except
          (and_then
             (perform (RefundProcessPut refund_id) (\<lambda>_. RUnit)
                (\<lambda>h. refund_process_put env h refund_id))
             (\<lambda>_. and_then (log INFO False ''Refund [%d] successfully approved.'' [AInt refund_id])
                (\<lambda>_. returns refunds_requiring_approval)))
          (\<lambda>e. and_then
                  (log ERROR True ''Failed to automatically approve refund [%d]!'' [AInt refund_id])
                  (\<lambda>_. returns (refunds_requiring_approval @ [refund_id]))))
       (approve_refunds env rest)"

text \<open>
  The second half of \<open>_process_refund\<close> (lines 118 to 144): what is done with the refunds that
  require an approval.
\<close>

definition notify_refunds_requiring_approval ::
    "env \<Rightarrow> course_product \<Rightarrow> bool \<Rightarrow> int list \<Rightarrow> unit prog" where
  "notify_refunds_requiring_approval env course_product is_entitlement refunds_requiring_approval =
     (if refunds_requiring_approval \<noteq> [] then
        (if mode course_product \<noteq> ''verified'' then
           (let msg = ''Skipping refund email notification for non-verified mode for user [%s], course [%s], mode: [%s]'';
                course_identifier = course_id course_product;
                (course_identifier, msg) =
                   (if is_entitlement
                    then (uuid course_product,
                          ''Skipping refund email notification for non-verified mode for user [%s], '' @
                          ''course entitlement [%s], mode: [%s]'')
                    else (course_identifier, msg))
            in log INFO False msg
                 [AInt (user_id (owner course_product)), AStr course_identifier,
                  AStr (mode course_product)])
         else
           try_except (send_refund_notification env course_product refunds_requiring_approval)
             (\<lambda>e. log WARNING True ''Could not send email notification for refund.'' []))
      else returns ())"

text \<open>\<open>_process_refund\<close>.\<close>

definition process_refund :: "env \<Rightarrow> int list \<Rightarrow> course_product \<Rightarrow> bool \<Rightarrow> unit prog" where
  "process_refund env refund_ids course_product is_entitlement =
     and_then (perform CommerceConfigurationCurrent RBool (enable_automatic_refund_approval env))
       (\<lambda>automatic.
          and_then (if automatic then approve_refunds env refund_ids [] else returns refund_ids)
            (notify_refunds_requiring_approval env course_product is_entitlement))"

definition refund_seat :: "env \<Rightarrow> course_product \<Rightarrow> (int list) prog" where
  "refund_seat env course_enrollment =
     (let course_key_str = course_id course_enrollment;
          enrollee = owner course_enrollment;
          payload = [(''course_id'', course_key_str), (''username'', username enrollee)]
      in
        and_then (perform (GetServiceUser (ECOMMERCE_SERVICE_WORKER_USERNAME env)) (\<lambda>_. RUnit)
                    (\<lambda>h. get_service_user env h (ECOMMERCE_SERVICE_WORKER_USERNAME env))) (\<lambda>_.
        and_then (perform EcommerceApiClient (\<lambda>_. RUnit) (ecommerce_api_client env)) (\<lambda>_.
        and_then (log INFO False ''Attempting to create a refund for user [%s], course [%s]...''
                    [AInt (user_id enrollee), AStr course_key_str]) (\<lambda>_.
        and_then (perform (RefundsPost payload) RIds (\<lambda>h. refunds_post env h payload)) (\<lambda>refund_ids.
        and_then
          (if refund_ids \<noteq> [] then
             and_then (log INFO False ''Refund successfully opened for user [%s], course [%s]: %r''
                         [AInt (user_id enrollee), AStr course_key_str, AIds refund_ids]) (\<lambda>_.
               process_refund env refund_ids course_enrollment False)
           else log INFO False ''No refund opened for user [%s], course [%s]''
                  [AInt (user_id enrollee), AStr course_key_str])
          (\<lambda>_. returns refund_ids))))))"

definition refund_entitlement :: "env \<Rightarrow> course_product \<Rightarrow> (int list) prog" where
  "refund_entitlement env course_entitlement =
     (let enrollee = owner course_entitlement;
          entitlement_uuid = uuid course_entitlement;
          payload = [(''order_number'', order_number course_entitlement),
                     (''username'', username enrollee),
                     (''entitlement_uuid'', entitlement_uuid)]
      in
        and_then (perform (GetServiceUser (ECOMMERCE_SERVICE_WORKER_USERNAME env)) (\<lambda>_. RUnit)
                    (\<lambda>h. get_service_user env h (ECOMMERCE_SERVICE_WORKER_USERNAME env))) (\<lambda>_.
        and_then (perform EcommerceApiClient (\<lambda>_. RUnit) (ecommerce_api_client env)) (\<lambda>_.
        and_then (log INFO False
                    ''Attempting to create a refund for user [%s], course entitlement [%s]...''
                    [AStr (username enrollee), AStr entitlement_uuid]) (\<lambda>_.
        and_then (perform (RefundsPost payload) RIds (\<lambda>h. refunds_post env h payload)) (\<lambda>refund_ids.
        and_then
          (if refund_ids \<noteq> [] then
             and_then (log INFO False
                         ''Refund successfully opened for user [%s], course entitlement [%s]: %r''
                         [AStr (username enrollee), AStr entitlement_uuid, AIds refund_ids]) (\<lambda>_.
               process_refund env refund_ids course_entitlement True)
           else log INFO False ''No refund opened for user [%s], course entitlement [%s]''
                  [AInt (user_id enrollee), AStr entitlement_uuid])
          (\<lambda>_. returns refund_ids))))))"

text \<open>
  \<open>get_request_user() or course_enrollment.user\<close>: \<open>None\<close> is the only falsy request user.
\<close>

fun or_user :: "request_user \<Rightarrow> user \<Rightarrow> request_user" where
  "or_user NoUser u = RequestUser u"
| "or_user r u = r"

text \<open>
  \<open>course_entitlement.user == request_user\<close> on a truthy request user: Django compares model
  instances by primary key, and a user never equals an \<open>AnonymousUser\<close>.
\<close>

fun is_owner :: "user \<Rightarrow> request_user \<Rightarrow> bool" where
  "is_owner u (RequestUser r) = (user_id u = user_id r)"
| "is_owner u r = False"

text \<open>The body of the \<open>try\<close> statement of \<open>handle_refund_order\<close> (lines 40 to 48).\<close>

definition refund_order_attempt :: "env \<Rightarrow> course_product \<Rightarrow> unit prog" where
  "refund_order_attempt env course_enrollment =
     and_then (get_request_user env) (\<lambda>r.
       let request_user = or_user r (owner course_enrollment)
       in if request_user = AnonymousUser then returns ()
          else and_then (refund_seat env course_enrollment) (\<lambda>_. returns ()))"

text \<open>
  \<open>handle_refund_order\<close>. The configuration check (line 35) and \<open>refundable()\<close> (line 38) come
  before the \<open>try\<close> statement; its clause is \<open>except Exception\<close> (line 49).
\<close>

definition handle_refund_order :: "env \<Rightarrow> course_product option \<Rightarrow> unit prog" where
  "handle_refund_order env course_enrollment =
     and_then (perform IsCommerceServiceConfigured RBool (is_commerce_service_configured env))
       (\<lambda>configured.
          if \<not> configured then returns ()
          else case course_enrollment of
                 None \<Rightarrow> returns ()
               | Some ce \<Rightarrow>
                   and_then (perform (Refundable ce) RBool (\<lambda>h. refundable env h ce)) (\<lambda>ok.
                     if ok then
                       try_except_Exception (refund_order_attempt env ce)
                         (\<lambda>e. log ERROR True
                                 ''Unexpected exception while attempting to initiate refund for user [%s], course [%s]''
                                 [AInt (user_id (owner ce)), AStr (course_id ce)])
                     else returns ()))"

text \<open>The body of the \<open>try\<close> statement of \<open>handle_refund_entitlement\<close> (lines 68 to 70).\<close>

definition refund_entitlement_attempt :: "env \<Rightarrow> course_product \<Rightarrow> unit prog" where
  "refund_entitlement_attempt env course_entitlement =
     and_then (get_request_user env) (\<lambda>request_user.
       if request_user \<noteq> NoUser \<and> is_owner (owner course_entitlement) request_user
       then and_then (refund_entitlement env course_entitlement) (\<lambda>_. returns ())
       else returns ())"

text \<open>
  \<open>handle_refund_entitlement\<close>. The clause is \<open>except Exception as exc\<close> (line 71); the
  arguments of \<open>log.exception\<close> are evaluated first, \<open>str(exc)\<close> among them, and what \<open>str(exc)\<close>
  raises leaves the handler.
\<close>

definition handle_refund_entitlement :: "env \<Rightarrow> course_product option \<Rightarrow> unit prog" where
  "handle_refund_entitlement env course_entitlement =
     and_then (perform IsCommerceServiceConfigured RBool (is_commerce_service_configured env))
       (\<lambda>configured.
          if \<not> configured then returns ()
          else case course_entitlement of
                 None \<Rightarrow> returns ()
               | Some ce \<Rightarrow>
                   and_then (perform (IsEntitlementRefundable ce) RBool
                               (\<lambda>h. is_entitlement_refundable env h ce)) (\<lambda>ok.
                     if ok then
                       try_except_Exception (refund_entitlement_attempt env ce)
                         (\<lambda>exc. and_then (evaluate (exn_str exc)) (\<lambda>message.
                                   log ERROR True
                                     (''Unexpected exception while attempting to initiate refund for user [%s], '' @
                                      ''course entitlement [%s] message: [%s]'')
                                     [AInt (user_id (owner ce)), AStr (uuid ce), AStr message]))
                     else returns ()))"

subsection \<open>Observations on a trace\<close>

text \<open>The events a run has appended to the trace: those of \<open>w'\<close> that \<open>w\<close> does not have yet.\<close>

definition events_since :: "world \<Rightarrow> world \<Rightarrow> event list" where
  "events_since w w' = drop (length (trace w)) (trace w')"

text \<open>The refund ids for which an approval call was made, in the order of the calls.\<close>

fun approval_attempt :: "event \<Rightarrow> int list" where
  "approval_attempt (Call (RefundProcessPut refund_id) out) = [refund_id]"
| "approval_attempt ev = []"

definition approval_attempts :: "event list \<Rightarrow> int list" where
  "approval_attempts evs = concat (map approval_attempt evs)"

text \<open>The refund ids whose approval call raised.\<close>

fun failed_approval :: "event \<Rightarrow> int list" where
  "failed_approval (Call (RefundProcessPut refund_id) (Raised e)) = [refund_id]"
| "failed_approval ev = []"

definition failed_approvals :: "event list \<Rightarrow> int list" where
  "failed_approvals evs = concat (map failed_approval evs)"

text \<open>The refund ids for which the failure of the approval was logged.\<close>

fun approval_failure_log :: "event \<Rightarrow> int list" where
  "approval_failure_log (Log ERROR True template [AInt refund_id]) =
     (if template = ''Failed to automatically approve refund [%d]!'' then [refund_id] else [])"
| "approval_failure_log ev = []"

definition approval_failure_logs :: "event list \<Rightarrow> int list" where
  "approval_failure_logs evs = concat (map approval_failure_log evs)"

text \<open>
  \<open>send_refund_notification\<close> starts with the call \<open>is_request_in_themed_site()\<close>, made
  nowhere else: that call marks an attempt to notify.
\<close>

fun is_notification_attempt :: "event \<Rightarrow> bool" where
  "is_notification_attempt (Call IsRequestInThemedSite out) = True"
| "is_notification_attempt ev = False"

definition notification_attempted :: "event list \<Rightarrow> bool" where
  "notification_attempted evs = list_ex is_notification_attempt evs"

fun is_suppression_log :: "event \<Rightarrow> bool" where
  "is_suppression_log (Log INFO False template args) =
     (template = ''Skipping refund email notification for non-verified mode for user [%s], course [%s], mode: [%s]'' \<or>
      template = ''Skipping refund email notification for non-verified mode for user [%s], course entitlement [%s], mode: [%s]'')"
| "is_suppression_log ev = False"

definition suppression_logs :: "event list \<Rightarrow> event list" where
  "suppression_logs evs = filter is_suppression_log evs"

text \<open>
  \<open>refund_seat\<close> and \<open>refund_entitlement\<close> start with the lookup of the service user, made
  nowhere else: that call marks an invocation of the refund orchestration.
\<close>

fun is_refund_attempt :: "event \<Rightarrow> bool" where
  "is_refund_attempt (Call (GetServiceUser name) out) = True"
| "is_refund_attempt ev = False"

definition refund_attempted :: "event list \<Rightarrow> bool" where
  "refund_attempted evs = list_ex is_refund_attempt evs"

text \<open>Calls that leave the platform: to the commerce service and to Zendesk.\<close>

fun is_outbound :: "event \<Rightarrow> bool" where
  "is_outbound (Call (RefundsPost payload) out) = True"
| "is_outbound (Call (RefundProcessPut refund_id) out) = True"
| "is_outbound (Call (RequestsPost url data usr pwd) out) = True"
| "is_outbound ev = False"

definition outbound_calls :: "event list \<Rightarrow> event list" where
  "outbound_calls evs = filter is_outbound evs"

text \<open>The refund ids that \<open>refunds.post\<close> returned.\<close>

fun opened_refund :: "event \<Rightarrow> int list list" where
  "opened_refund (Call (RefundsPost payload) (RIds refund_ids)) = [refund_ids]"
| "opened_refund ev = []"

definition opened_refunds :: "event list \<Rightarrow> int list list" where
  "opened_refunds evs = concat (map opened_refund evs)"

text \<open>The log record of a refund request that opened no refund.\<close>

fun is_no_refund_log :: "event \<Rightarrow> bool" where
  "is_no_refund_log (Log INFO False template args) =
     (template = ''No refund opened for user [%s], course [%s]'' \<or>
      template = ''No refund opened for user [%s], course entitlement [%s]'')"
| "is_no_refund_log ev = False"

text \<open>The log record of the \<open>except\<close> clause of a handler.\<close>

fun is_handler_exception_log :: "event \<Rightarrow> bool" where
  "is_handler_exception_log (Log ERROR True template args) =
     (template = ''Unexpected exception while attempting to initiate refund for user [%s], course [%s]'' \<or>
      template = ''Unexpected exception while attempting to initiate refund for user [%s], course entitlement [%s] message: [%s]'')"
| "is_handler_exception_log ev = False"

text \<open>
  \<open>only P m\<close>: a run of \<open>m\<close> appends events to the trace and removes none, and every event it
  appends satisfies \<open>P\<close>.
\<close>

definition only :: "(event \<Rightarrow> bool) \<Rightarrow> 'a prog \<Rightarrow> bool" where
  "only P m = (\<forall>w. \<exists>evs. trace (snd (m w)) = trace w @ evs \<and> list_all P evs)"

text \<open>The events of each part of the module.\<close>

fun ticket_event :: "event \<Rightarrow> bool" where
  "ticket_event (Call (RequestsPost url data usr pwd) out) = True"
| "ticket_event (Log lvl exc_info template args) =
     (template \<in> set [''Zendesk is not configured. Cannot create a ticket.'',
                       ''Failed to create ticket. Status: [%d], Body: [%s]'',
                       ''Successfully created ticket.'',
                       ''Failed to create ticket.''])"
| "ticket_event ev = False"

fun notification_event :: "event \<Rightarrow> bool" where
  "notification_event (Call IsRequestInThemedSite out) = True"
| "notification_event (Call (GetValue k d) out) = True"
| "notification_event ev = ticket_event ev"

fun approval_event :: "event \<Rightarrow> bool" where
  "approval_event (Call (RefundProcessPut refund_id) out) = True"
| "approval_event (Log lvl exc_info template args) =
     (template \<in> set [''Refund [%d] successfully approved.'',
                       ''Failed to automatically approve refund [%d]!''])"
| "approval_event ev = False"

fun branch_event :: "event \<Rightarrow> bool" where
  "branch_event (Log lvl exc_info template args) =
     (is_suppression_log (Log lvl exc_info template args) \<or>
      template = ''Could not send email notification for refund.'' \<or>
      ticket_event (Log lvl exc_info template args))"
| "branch_event ev = notification_event ev"

fun processing_event :: "event \<Rightarrow> bool" where
  "processing_event (Call CommerceConfigurationCurrent out) = True"
| "processing_event ev = (approval_event ev \<or> branch_event ev)"

text \<open>The events of \<open>refund_seat\<close> and \<open>refund_entitlement\<close> before \<open>_process_refund\<close> runs.\<close>

fun setup_event :: "event \<Rightarrow> bool" where
  "setup_event (Call (GetServiceUser name) out) = True"
| "setup_event (Call EcommerceApiClient out) = True"
| "setup_event (Call (RefundsPost payload) out) = True"
| "setup_event (Log lvl exc_info template args) =
     (template \<in> set [''Attempting to create a refund for user [%s], course [%s]...'',
                       ''Refund successfully opened for user [%s], course [%s]: %r'',
                       ''No refund opened for user [%s], course [%s]'',
                       ''Attempting to create a refund for user [%s], course entitlement [%s]...'',
                       ''Refund successfully opened for user [%s], course entitlement [%s]: %r'',
                       ''No refund opened for user [%s], course entitlement [%s]''])"
| "setup_event ev = False"

subsection \<open>A concrete environment\<close>

text \<open>
  One learner, one verified product and collaborators with fixed answers: the service opens
  the refunds 1, 2 and 3, the approval of refund 2 fails, and the request is on a themed site.
\<close>

definition example_user :: user where
  "example_user = \<lparr>user_id = 7, username = ''learner'', email = ''learner@example.com'',
                    profile_name = ''A Learner''\<rparr>"

definition example_product :: course_product where
  "example_product = \<lparr>owner = example_user, mode = ''verified'', course_id = ''course-v1:edX+DemoX+T1'',
                       uuid = ''3f2a'', order_number = ''EDX-100''\<rparr>"

definition example_env :: env where
  "example_env =
     \<lparr>is_commerce_service_configured = (\<lambda>h. Inr True),
      refundable = (\<lambda>h c. Inr True),
      is_entitlement_refundable = (\<lambda>h c. Inr True),
      get_current_request_user = (\<lambda>h. Inr (RequestUser example_user)),
      get_service_user = (\<lambda>h name. Inr ()),
      ecommerce_api_client = (\<lambda>h. Inr ()),
      refunds_post = (\<lambda>h payload. Inr [1, 2, 3]),
      refund_process_put = (\<lambda>h refund_id. if refund_id = 2 then Inl (OtherException ''timeout'') else Inr ()),
      enable_automatic_refund_approval = (\<lambda>h. Inr True),
      is_request_in_themed_site = (\<lambda>h. Inr True),
      get_value = (\<lambda>h k d. Inr d),
      requests_post = (\<lambda>h url data usr pwd. Inr (500, ''error'')),
      urljoin = (\<lambda>base path. Inr (base @ path)),
      json_dumps = (\<lambda>data. Inr (''ticket: '' @ subject data @ '' / '' @ comment_body data)),
      set_iteration = remdups,
      ECOMMERCE_SERVICE_WORKER_USERNAME = ''ecommerce_worker'',
      ECOMMERCE_PUBLIC_URL_ROOT = ''https://ecommerce.example.com'',
      ZENDESK_URL = Some ''https://zendesk.example.com'',
      ZENDESK_USER = Some ''support@example.com'',
      ZENDESK_API_KEY = Some ''key''\<rparr>"

definition empty_world :: world where
  "empty_world = \<lparr>trace = [], heap = []\<rparr>"

section \<open>Auxiliary facts\<close>

subsection \<open>Composition rules for \<open>only\<close>\<close>

lemma only_returns: "only P (returns v)"
  by (simp add: only_def returns_def)

lemma only_raise: "only P (raise e)"
  by (simp add: only_def raise_def)

lemma only_log: "P (Log lvl x t args) \<Longrightarrow> only P (log lvl x t args)"
  by (simp add: only_def log_def emit_def)

lemma only_perform: "(\<And>out. P (Call c out)) \<Longrightarrow> only P (perform c enc f)"
  by (simp add: only_def perform_def emit_def Let_def)

lemma only_new_list: "only P (new_list xs)"
  by (simp add: only_def new_list_def)

lemma only_read_list: "only P (read_list a)"
  by (simp add: only_def read_list_def)

lemma only_list_append: "only P (list_append a x)"
  by (simp add: only_def list_append_def)

lemma only_and_then:
  assumes "only P m" and "\<And>v. only P (f v)"
  shows "only P (and_then m f)"
  unfolding only_def
proof
  fix w
  obtain evs where m: "trace (snd (m w)) = trace w @ evs" "list_all P evs"
    using assms(1) unfolding only_def by blast
  show "\<exists>evs. trace (snd (and_then m f w)) = trace w @ evs \<and> list_all P evs"
  proof (cases "m w")
    case (Pair r w1)
    show ?thesis
    proof (cases r)
      case (Inl e)
      with Pair m show ?thesis by (auto simp: and_then_def)
    next
      case (Inr v)
      obtain evs2 where f: "trace (snd (f v w1)) = trace w1 @ evs2" "list_all P evs2"
        using assms(2) unfolding only_def by blast
      with Pair Inr m have "trace (snd (and_then m f w)) = trace w @ (evs @ evs2)"
        "list_all P (evs @ evs2)" by (auto simp: and_then_def)
      then show ?thesis by blast
    qed
  qed
qed

lemma only_try_except:
  assumes "only P m" and "\<And>e. only P (h e)"
  shows "only P (try_except m h)"
  unfolding only_def
proof
  fix w
  obtain evs where m: "trace (snd (m w)) = trace w @ evs" "list_all P evs"
    using assms(1) unfolding only_def by blast
  show "\<exists>evs. trace (snd (try_except m h w)) = trace w @ evs \<and> list_all P evs"
  proof (cases "m w")
    case (Pair r w1)
    show ?thesis
    proof (cases r)
      case (Inr v)
      with Pair m show ?thesis by (auto simp: try_except_def)
    next
      case (Inl e)
      obtain evs2 where f: "trace (snd (h e w1)) = trace w1 @ evs2" "list_all P evs2"
        using assms(2) unfolding only_def by blast
      with Pair Inl m have "trace (snd (try_except m h w)) = trace w @ (evs @ evs2)"
        "list_all P (evs @ evs2)" by (auto simp: try_except_def)
      then show ?thesis by blast
    qed
  qed
qed

lemma only_evaluate: "only P (evaluate r)"
  by (simp add: only_def evaluate_def)

lemma only_try_except_Exception:
  assumes "only P m" and "\<And>e. only P (h e)"
  shows "only P (try_except_Exception m h)"
  unfolding only_def
proof
  fix w
  obtain evs where m: "trace (snd (m w)) = trace w @ evs" "list_all P evs"
    using assms(1) unfolding only_def by blast
  show "\<exists>evs. trace (snd (try_except_Exception m h w)) = trace w @ evs \<and> list_all P evs"
  proof (cases "m w")
    case (Pair r w1)
    show ?thesis
    proof (cases r)
      case (Inr v)
      with Pair m show ?thesis by (auto simp: try_except_Exception_def)
    next
      case (Inl e)
      show ?thesis
      proof (cases "is_Exception e")
        case False
        with Pair Inl m show ?thesis by (auto simp: try_except_Exception_def)
      next
        case True
        obtain evs2 where f: "trace (snd (h e w1)) = trace w1 @ evs2" "list_all P evs2"
          using assms(2) unfolding only_def by blast
        with Pair Inl True m have "trace (snd (try_except_Exception m h w)) = trace w @ (evs @ evs2)"
          "list_all P (evs @ evs2)" by (auto simp: try_except_Exception_def)
        then show ?thesis by blast
      qed
    qed
  qed
qed

lemma only_mono: "only P m \<Longrightarrow> (\<And>ev. P ev \<Longrightarrow> P' ev) \<Longrightarrow> only P' m"
  unfolding only_def list_all_iff by metis


lemma only_if: "(c \<Longrightarrow> only P a) \<Longrightarrow> (\<not> c \<Longrightarrow> only P b) \<Longrightarrow> only P (if c then a else b)"
  by simp

lemma only_case_prod: "(\<And>a b. only P (f a b)) \<Longrightarrow> only P (case v of (a, b) \<Rightarrow> f a b)"
  by (cases v) simp

lemma only_case_option:
  "only P a \<Longrightarrow> (\<And>x. only P (f x)) \<Longrightarrow> only P (case v of None \<Rightarrow> a | Some x \<Rightarrow> f x)"
  by (cases v) simp_all

lemmas only_intros = only_returns only_raise only_log only_perform only_new_list
  only_read_list only_list_append only_and_then only_try_except only_if only_case_prod
  only_case_option only_evaluate only_try_except_Exception

lemma onlyE:
  assumes "only P m"
  obtains evs where "trace (snd (m w)) = trace w @ evs" "list_all P evs"
  using assms unfolding only_def by blast

subsection \<open>The events of each function\<close>

lemma only_create_zendesk_ticket:
  "only ticket_event (create_zendesk_ticket env name mail subj body tags)"
  unfolding create_zendesk_ticket_def Let_def
  by (intro only_intros) simp_all

lemma ticket_notification_event: "ticket_event ev \<Longrightarrow> notification_event ev"
  by (cases ev rule: notification_event.cases) auto

lemma only_generate_refund_notification_body:
  "only notification_event (generate_refund_notification_body env student refund_ids)"
  unfolding generate_refund_notification_body_def Let_def
  by (intro only_intros) simp_all

lemma only_send_refund_notification:
  "only notification_event (send_refund_notification env course_product refund_ids)"
  unfolding send_refund_notification_def Let_def
  by (intro only_intros only_generate_refund_notification_body
        only_mono [OF only_create_zendesk_ticket ticket_notification_event]) simp_all

lemma only_approve_refunds:
  "only approval_event (approve_refunds env refund_ids acc)"
proof (induction refund_ids arbitrary: acc)
  case Nil
  show ?case by (simp add: only_returns)
next
  case (Cons refund_id rest)
  show ?case
    unfolding approve_refunds.simps
    by (intro only_intros Cons.IH) simp_all
qed

lemma notification_branch_event: "notification_event ev \<Longrightarrow> branch_event ev"
  by (cases ev rule: branch_event.cases) auto

lemma only_notify_refunds_requiring_approval:
  "only branch_event (notify_refunds_requiring_approval env course_product is_entitlement needs)"
proof (cases is_entitlement)
  case True
  then show ?thesis
    unfolding notify_refunds_requiring_approval_def Let_def
    by (simp del: branch_event.simps)
       (intro conjI impI only_intros
          only_mono [OF only_send_refund_notification notification_branch_event]; simp)
next
  case False
  then show ?thesis
    unfolding notify_refunds_requiring_approval_def Let_def
    by (simp del: branch_event.simps)
       (intro conjI impI only_intros
          only_mono [OF only_send_refund_notification notification_branch_event]; simp)
qed

lemma approval_processing_event: "approval_event ev \<Longrightarrow> processing_event ev"
  by (cases ev rule: processing_event.cases) auto

lemma branch_processing_event: "branch_event ev \<Longrightarrow> processing_event ev"
  by (cases ev rule: processing_event.cases) auto

lemma only_process_refund:
  "only processing_event (process_refund env refund_ids course_product is_entitlement)"
  unfolding process_refund_def
  by (intro only_intros only_mono [OF only_approve_refunds approval_processing_event]
        only_mono [OF only_notify_refunds_requiring_approval branch_processing_event]) simp_all

lemma events_since_append:
  "trace w' = trace w @ evs \<Longrightarrow> events_since w w' = evs"
  by (simp add: events_since_def)

lemma concat_map_Nil:
  "list_all P evs \<Longrightarrow> (\<And>ev. P ev \<Longrightarrow> f ev = []) \<Longrightarrow> concat (map f evs) = []"
  by (induction evs) auto

lemma branch_event_no_approval_attempt: "branch_event ev \<Longrightarrow> approval_attempt ev = []"
  by (cases ev rule: approval_attempt.cases) auto

lemma branch_event_no_failed_approval: "branch_event ev \<Longrightarrow> failed_approval ev = []"
  by (cases ev rule: failed_approval.cases) auto

lemma branch_event_no_approval_failure_log: "branch_event ev \<Longrightarrow> approval_failure_log ev = []"
  by (cases ev rule: approval_failure_log.cases) auto

lemma approval_attempts_append [simp]:
  "approval_attempts (xs @ ys) = approval_attempts xs @ approval_attempts ys"
  by (simp add: approval_attempts_def)

lemma failed_approvals_append [simp]:
  "failed_approvals (xs @ ys) = failed_approvals xs @ failed_approvals ys"
  by (simp add: failed_approvals_def)

lemma approval_failure_logs_append [simp]:
  "approval_failure_logs (xs @ ys) = approval_failure_logs xs @ approval_failure_logs ys"
  by (simp add: approval_failure_logs_def)

lemma approve_refunds_trace:
  "\<exists>evs. approve_refunds env refund_ids acc w =
            (Inr (acc @ failed_approvals evs), w\<lparr>trace := trace w @ evs\<rparr>) \<and>
         approval_attempts evs = refund_ids \<and>
         approval_failure_logs evs = failed_approvals evs"
proof (induction refund_ids arbitrary: acc w)
  case Nil
  have "approve_refunds env [] acc w = (Inr (acc @ failed_approvals []), w\<lparr>trace := trace w @ []\<rparr>)"
    by (simp add: returns_def failed_approvals_def)
  moreover have "approval_attempts [] = []" "approval_failure_logs [] = failed_approvals []"
    by (simp_all add: approval_attempts_def approval_failure_logs_def failed_approvals_def)
  ultimately show ?case by blast
next
  case (Cons refund_id rest)
  show ?case
  proof (cases "refund_process_put env (trace w) refund_id")
    case (Inr u)
    let ?e1 = "[Call (RefundProcessPut refund_id) RUnit,
                Log INFO False ''Refund [%d] successfully approved.'' [AInt refund_id]]"
    let ?w1 = "w\<lparr>trace := trace w @ ?e1\<rparr>"
    obtain evs where evs:
      "approve_refunds env rest acc ?w1 = (Inr (acc @ failed_approvals evs), ?w1\<lparr>trace := trace ?w1 @ evs\<rparr>)"
      "approval_attempts evs = rest" "approval_failure_logs evs = failed_approvals evs"
      using Cons.IH [of acc ?w1] by blast
    have step: "approve_refunds env (refund_id # rest) acc w = approve_refunds env rest acc ?w1"
      using Inr by (simp add: and_then_def try_except_def perform_def log_def emit_def returns_def Let_def)
    have "approve_refunds env (refund_id # rest) acc w =
            (Inr (acc @ failed_approvals (?e1 @ evs)), w\<lparr>trace := trace w @ (?e1 @ evs)\<rparr>)"
      using step evs(1) by (simp add: failed_approvals_def)
    moreover have "approval_attempts (?e1 @ evs) = refund_id # rest"
      using evs(2) by (simp add: approval_attempts_def)
    moreover have "approval_failure_logs (?e1 @ evs) = failed_approvals (?e1 @ evs)"
      using evs(3) by (simp add: approval_failure_logs_def failed_approvals_def)
    ultimately show ?thesis by blast
  next
    case (Inl e)
    let ?e1 = "[Call (RefundProcessPut refund_id) (Raised e),
                Log ERROR True ''Failed to automatically approve refund [%d]!'' [AInt refund_id]]"
    let ?w1 = "w\<lparr>trace := trace w @ ?e1\<rparr>"
    obtain evs where evs:
      "approve_refunds env rest (acc @ [refund_id]) ?w1 =
         (Inr ((acc @ [refund_id]) @ failed_approvals evs), ?w1\<lparr>trace := trace ?w1 @ evs\<rparr>)"
      "approval_attempts evs = rest" "approval_failure_logs evs = failed_approvals evs"
      using Cons.IH [of "acc @ [refund_id]" ?w1] by blast
    have step: "approve_refunds env (refund_id # rest) acc w =
                  approve_refunds env rest (acc @ [refund_id]) ?w1"
      using Inl by (simp add: and_then_def try_except_def perform_def log_def emit_def returns_def Let_def)
    have "approve_refunds env (refund_id # rest) acc w =
            (Inr (acc @ failed_approvals (?e1 @ evs)), w\<lparr>trace := trace w @ (?e1 @ evs)\<rparr>)"
      using step evs(1) by (simp add: failed_approvals_def)
    moreover have "approval_attempts (?e1 @ evs) = refund_id # rest"
      using evs(2) by (simp add: approval_attempts_def)
    moreover have "approval_failure_logs (?e1 @ evs) = failed_approvals (?e1 @ evs)"
      using evs(3) by (simp add: approval_failure_logs_def failed_approvals_def)
    ultimately show ?thesis by blast
  qed
qed

subsection \<open>The notification branch and \<open>_process_refund\<close>\<close>

lemma trace_extension_unique:
  "trace w' = trace w @ evs \<Longrightarrow> trace w' = trace w @ evs' \<Longrightarrow> evs = evs'"
  by simp

lemma send_refund_notification_events:
  "\<exists>out rest. trace (snd (send_refund_notification env course_product refund_ids w)) =
                 trace w @ Call IsRequestInThemedSite out # rest \<and>
               list_all notification_event rest"
proof -
  let ?w0 = "w\<lparr>heap := heap w @ [[''auto_refund'']]\<rparr>"
  let ?tags = "length (heap w)"
  show ?thesis
  proof (cases "is_request_in_themed_site env (trace w)")
    case (Inl e)
    then have "trace (snd (send_refund_notification env course_product refund_ids w)) =
                 trace w @ Call IsRequestInThemedSite (Raised e) # []"
      by (simp add: send_refund_notification_def and_then_def new_list_def perform_def emit_def Let_def)
    moreover have "list_all notification_event []" by simp
    ultimately show ?thesis by blast
  next
    case (Inr themed)
    let ?w1 = "emit (Call IsRequestInThemedSite (RBool themed)) ?w0"
    let ?k = "(if themed
               then raise (NotImplementedError ''Unable to send refund processing emails to support teams.'')
               else and_then (generate_refund_notification_body env (owner course_product) refund_ids)
                      (\<lambda>body. create_zendesk_ticket env
                         (if profile_name (owner course_product) \<noteq> [] then profile_name (owner course_product)
                          else username (owner course_product))
                         (email (owner course_product)) ''[Refund] User-Requested Refund'' body (Some ?tags)))
              :: unit prog"
    have k: "only notification_event ?k"
      by (intro only_intros only_generate_refund_notification_body
            only_mono [OF only_create_zendesk_ticket ticket_notification_event])
    have eq: "send_refund_notification env course_product refund_ids w = ?k ?w1"
      using Inr
      by (simp add: send_refund_notification_def and_then_def new_list_def perform_def emit_def Let_def)
    obtain rest where "trace (snd (?k ?w1)) = trace ?w1 @ rest" "list_all notification_event rest"
      using k by (rule onlyE)
    then have "trace (snd (send_refund_notification env course_product refund_ids w)) =
                 trace w @ Call IsRequestInThemedSite (RBool themed) # rest"
      using eq by (simp add: emit_def)
    then show ?thesis using \<open>list_all notification_event rest\<close> by blast
  qed
qed

lemma notification_event_not_suppression: "notification_event ev \<Longrightarrow> \<not> is_suppression_log ev"
  by (cases ev rule: is_suppression_log.cases) auto

lemma approval_event_not_suppression: "approval_event ev \<Longrightarrow> \<not> is_suppression_log ev"
  by (cases ev rule: is_suppression_log.cases) auto

lemma approval_event_not_notification_attempt: "approval_event ev \<Longrightarrow> \<not> is_notification_attempt ev"
  by (cases ev rule: is_notification_attempt.cases) auto

lemma filter_Nil_list_all:
  "list_all P evs \<Longrightarrow> (\<And>ev. P ev \<Longrightarrow> \<not> Q ev) \<Longrightarrow> filter Q evs = []"
  by (induction evs) auto

lemma list_ex_False_list_all:
  "list_all P evs \<Longrightarrow> (\<And>ev. P ev \<Longrightarrow> \<not> Q ev) \<Longrightarrow> \<not> list_ex Q evs"
  by (induction evs) auto

text \<open>What the notification branch does, for each of its three cases.\<close>

lemma notify_refunds_requiring_approval_events:
  "\<exists>evs w'. notify_refunds_requiring_approval env course_product is_entitlement needs w = (Inr (), w') \<and>
             trace w' = trace w @ evs \<and>
             notification_attempted evs = (needs \<noteq> [] \<and> mode course_product = ''verified'') \<and>
             length (suppression_logs evs) =
               (if needs \<noteq> [] \<and> mode course_product \<noteq> ''verified'' then 1 else 0)"
proof (cases "needs = []")
  case True
  then have "notify_refunds_requiring_approval env course_product is_entitlement needs w = (Inr (), w)"
    by (simp add: notify_refunds_requiring_approval_def returns_def)
  moreover have "trace w = trace w @ []" by simp
  moreover have "notification_attempted [] = (needs \<noteq> [] \<and> mode course_product = ''verified'')"
    using True by (simp add: notification_attempted_def)
  moreover have "length (suppression_logs []) =
                   (if needs \<noteq> [] \<and> mode course_product \<noteq> ''verified'' then 1 else 0)"
    using True by (simp add: suppression_logs_def)
  ultimately show ?thesis by blast
next
  case False
  show ?thesis
  proof (cases "mode course_product = ''verified''")
    case unverified: False
    have "\<exists>ev. is_suppression_log ev \<and> \<not> is_notification_attempt ev \<and>
            notify_refunds_requiring_approval env course_product is_entitlement needs w = (Inr (), emit ev w)"
    proof (cases is_entitlement)
      case True
      let ?ev = "Log INFO False
                   ''Skipping refund email notification for non-verified mode for user [%s], course entitlement [%s], mode: [%s]''
                   [AInt (user_id (owner course_product)), AStr (uuid course_product),
                    AStr (mode course_product)]"
      have "notify_refunds_requiring_approval env course_product is_entitlement needs w = (Inr (), emit ?ev w)"
        using False unverified True
        by (simp add: notify_refunds_requiring_approval_def log_def Let_def)
      moreover have "is_suppression_log ?ev" "\<not> is_notification_attempt ?ev" by simp_all
      ultimately show ?thesis by blast
    next
      case not_entitlement: False
      let ?ev = "Log INFO False
                   ''Skipping refund email notification for non-verified mode for user [%s], course [%s], mode: [%s]''
                   [AInt (user_id (owner course_product)), AStr (course_id course_product),
                    AStr (mode course_product)]"
      have "notify_refunds_requiring_approval env course_product is_entitlement needs w = (Inr (), emit ?ev w)"
        using False unverified not_entitlement
        by (simp add: notify_refunds_requiring_approval_def log_def Let_def)
      moreover have "is_suppression_log ?ev" "\<not> is_notification_attempt ?ev" by simp_all
      ultimately show ?thesis by blast
    qed
    then obtain ev where ev: "is_suppression_log ev" "\<not> is_notification_attempt ev"
      "notify_refunds_requiring_approval env course_product is_entitlement needs w = (Inr (), emit ev w)"
      by blast
    have "trace (emit ev w) = trace w @ [ev]" by (simp add: emit_def)
    moreover have "notification_attempted [ev] = (needs \<noteq> [] \<and> mode course_product = ''verified'')"
      using ev(2) unverified by (simp add: notification_attempted_def)
    moreover have "length (suppression_logs [ev]) =
                     (if needs \<noteq> [] \<and> mode course_product \<noteq> ''verified'' then 1 else 0)"
      using ev(1) False unverified by (simp add: suppression_logs_def)
    ultimately show ?thesis using ev(3) by blast
  next
    case verified: True
    let ?send = "send_refund_notification env course_product needs"
    let ?warn = "Log WARNING True ''Could not send email notification for refund.'' []"
    obtain out rest where send:
      "trace (snd (?send w)) = trace w @ Call IsRequestInThemedSite out # rest"
      "list_all notification_event rest"
      using send_refund_notification_events by blast
    have eq: "notify_refunds_requiring_approval env course_product is_entitlement needs w =
                try_except ?send (\<lambda>e. log WARNING True ''Could not send email notification for refund.'' []) w"
      using False verified by (simp add: notify_refunds_requiring_approval_def)
    obtain tail where tail: "tail = [] \<or> tail = [?warn]"
      "notify_refunds_requiring_approval env course_product is_entitlement needs w =
         (Inr (), (snd (?send w))\<lparr>trace := trace (snd (?send w)) @ tail\<rparr>)"
    proof (cases "fst (?send w)")
      case (Inl e)
      then have "notify_refunds_requiring_approval env course_product is_entitlement needs w =
                   (Inr (), (snd (?send w))\<lparr>trace := trace (snd (?send w)) @ [?warn]\<rparr>)"
        unfolding eq by (cases "?send w") (simp add: try_except_def log_def emit_def)
      then show ?thesis using that by blast
    next
      case (Inr u)
      then have "notify_refunds_requiring_approval env course_product is_entitlement needs w =
                   (Inr (), (snd (?send w))\<lparr>trace := trace (snd (?send w)) @ []\<rparr>)"
        unfolding eq by (cases "?send w") (simp add: try_except_def)
      then show ?thesis using that by blast
    qed
    let ?evs = "Call IsRequestInThemedSite out # rest @ tail"
    have tr: "trace ((snd (?send w))\<lparr>trace := trace (snd (?send w)) @ tail\<rparr>) = trace w @ ?evs"
      using send(1) by simp
    have att: "notification_attempted ?evs = (needs \<noteq> [] \<and> mode course_product = ''verified'')"
      using False verified by (simp add: notification_attempted_def)
    have "filter is_suppression_log rest = []"
      using send(2) by (rule filter_Nil_list_all) (rule notification_event_not_suppression)
    then have "suppression_logs ?evs = []"
      using tail(1) by (auto simp: suppression_logs_def)
    then have sup: "length (suppression_logs ?evs) =
                      (if needs \<noteq> [] \<and> mode course_product \<noteq> ''verified'' then 1 else 0)"
      using verified by simp
    show ?thesis using tail(2) tr att sup by blast
  qed
qed

lemma notify_refunds_requiring_approval_run:
  obtains evs w' where
    "notify_refunds_requiring_approval env course_product is_entitlement needs w = (Inr (), w')"
    "trace w' = trace w @ evs"
    "list_all branch_event evs"
    "notification_attempted evs = (needs \<noteq> [] \<and> mode course_product = ''verified'')"
    "length (suppression_logs evs) =
       (if needs \<noteq> [] \<and> mode course_product \<noteq> ''verified'' then 1 else 0)"
proof -
  obtain evs w' where a:
    "notify_refunds_requiring_approval env course_product is_entitlement needs w = (Inr (), w')"
    "trace w' = trace w @ evs"
    "notification_attempted evs = (needs \<noteq> [] \<and> mode course_product = ''verified'')"
    "length (suppression_logs evs) =
       (if needs \<noteq> [] \<and> mode course_product \<noteq> ''verified'' then 1 else 0)"
    using notify_refunds_requiring_approval_events [of env course_product is_entitlement needs w]
    by (elim exE conjE) (rule that; assumption)
  obtain evs' where b:
    "trace (snd (notify_refunds_requiring_approval env course_product is_entitlement needs w)) =
       trace w @ evs'" "list_all branch_event evs'"
    using only_notify_refunds_requiring_approval by (rule onlyE)
  have "evs' = evs" using a(1,2) b(1) by simp
  then have "list_all branch_event evs" using b(2) by simp
  then show ?thesis using that [OF a(1) a(2) _ a(3) a(4)] by simp
qed

lemma process_refund_decompose:
  assumes cfg: "enable_automatic_refund_approval env (trace w) = Inr automatic"
  obtains evs1 w1 where
    "trace w1 = trace w @ Call CommerceConfigurationCurrent (RBool automatic) # evs1"
    "list_all approval_event evs1"
    "if automatic then approval_attempts evs1 = refund_ids else evs1 = []"
    "process_refund env refund_ids course_product is_entitlement w =
       notify_refunds_requiring_approval env course_product is_entitlement
         (if automatic then failed_approvals evs1 else refund_ids) w1"
proof (cases automatic)
  case True
  let ?w0 = "emit (Call CommerceConfigurationCurrent (RBool True)) w"
  obtain evs1 where loop:
    "approve_refunds env refund_ids [] ?w0 =
       (Inr ([] @ failed_approvals evs1), ?w0\<lparr>trace := trace ?w0 @ evs1\<rparr>)"
    "approval_attempts evs1 = refund_ids"
    using approve_refunds_trace [of env refund_ids "[]" ?w0] by blast
  obtain evs1' where o:
    "trace (snd (approve_refunds env refund_ids [] ?w0)) = trace ?w0 @ evs1'"
    "list_all approval_event evs1'"
    using only_approve_refunds by (rule onlyE)
  have same: "evs1' = evs1" using loop(1) o(1) by simp
  let ?w1 = "?w0\<lparr>trace := trace ?w0 @ evs1\<rparr>"
  have f1: "trace ?w1 = trace w @ Call CommerceConfigurationCurrent (RBool automatic) # evs1"
    using True by (simp add: emit_def)
  have f2: "list_all approval_event evs1" using o(2) same by simp
  have f3: "if automatic then approval_attempts evs1 = refund_ids else evs1 = []"
    using True loop(2) by simp
  have f4: "process_refund env refund_ids course_product is_entitlement w =
       notify_refunds_requiring_approval env course_product is_entitlement
         (if automatic then failed_approvals evs1 else refund_ids) ?w1"
    using cfg True loop(1) by (simp add: process_refund_def and_then_def perform_def Let_def)
  show ?thesis by (rule that [OF f1 f2 f3 f4])
next
  case False
  let ?w0 = "emit (Call CommerceConfigurationCurrent (RBool False)) w"
  have f1: "trace ?w0 = trace w @ Call CommerceConfigurationCurrent (RBool automatic) # []"
    using False by (simp add: emit_def)
  have f2: "list_all approval_event []" by simp
  have f3: "if automatic then approval_attempts [] = refund_ids else [] = ([] :: event list)"
    using False by simp
  have f4: "process_refund env refund_ids course_product is_entitlement w =
       notify_refunds_requiring_approval env course_product is_entitlement
         (if automatic then failed_approvals [] else refund_ids) ?w0"
    using cfg False by (simp add: process_refund_def and_then_def perform_def returns_def Let_def)
  show ?thesis by (rule that [OF f1 f2 f3 f4])
qed

lemma notification_attempted_append:
  "notification_attempted (xs @ ys) = (notification_attempted xs \<or> notification_attempted ys)"
  by (simp add: notification_attempted_def)

lemma suppression_logs_append:
  "suppression_logs (xs @ ys) = suppression_logs xs @ suppression_logs ys"
  by (simp add: suppression_logs_def)

lemma approval_events_silent:
  assumes "list_all approval_event evs"
  shows "\<not> notification_attempted evs" "suppression_logs evs = []"
  unfolding notification_attempted_def suppression_logs_def
  using assms
  by (simp_all add: list_ex_False_list_all [where P = approval_event]
        filter_Nil_list_all [where P = approval_event]
        approval_event_not_notification_attempt approval_event_not_suppression)

lemma branch_events_no_approval:
  assumes "list_all branch_event evs"
  shows "approval_attempts evs = []" "failed_approvals evs = []" "approval_failure_logs evs = []"
  unfolding approval_attempts_def failed_approvals_def approval_failure_logs_def
  using assms
  by (simp_all add: concat_map_Nil [where P = branch_event] branch_event_no_approval_attempt
        branch_event_no_failed_approval branch_event_no_approval_failure_log)

text \<open>The definitions a run on a concrete environment unfolds.\<close>

lemmas prog_defs = returns_def raise_def and_then_def evaluate_def try_except_def
  try_except_Exception_def emit_def perform_def log_def
  list_at_def new_list_def read_list_def list_append_def Let_def

lemmas example_defs = example_env_def example_product_def example_user_def empty_world_def

subsection \<open>\<open>refund_seat\<close> and \<open>refund_entitlement\<close>\<close>

text \<open>
  The three ways \<open>refund_seat\<close> can go: it fails before any refund is opened, no refund is
  opened, or refunds are opened and \<open>_process_refund\<close> runs on them.
\<close>

lemma refund_seat_cases:
  assumes run: "refund_seat env course_enrollment w = (r, w')"
  obtains
    (failed) e pre out rest where "r = Inl e" "w' = w\<lparr>trace := trace w @ pre\<rparr>"
      "list_all setup_event pre" "opened_refunds pre = []"
      "pre = Call (GetServiceUser (ECOMMERCE_SERVICE_WORKER_USERNAME env)) out # rest"
  | (unopened) pre out rest where "r = Inr []" "w' = w\<lparr>trace := trace w @ pre\<rparr>"
      "list_all setup_event pre" "opened_refunds pre = [[]]" "pre \<noteq> []" "is_no_refund_log (last pre)"
      "pre = Call (GetServiceUser (ECOMMERCE_SERVICE_WORKER_USERNAME env)) out # rest"
  | (opened) refund_ids pre r2 out rest where "refund_ids \<noteq> []"
      "list_all setup_event pre" "opened_refunds pre = [refund_ids]"
      "process_refund env refund_ids course_enrollment False (w\<lparr>trace := trace w @ pre\<rparr>) = (r2, w')"
      "r = (case r2 of Inl e \<Rightarrow> Inl e | Inr u \<Rightarrow> Inr refund_ids)"
      "pre = Call (GetServiceUser (ECOMMERCE_SERVICE_WORKER_USERNAME env)) out # rest"
proof -
  let ?name = "ECOMMERCE_SERVICE_WORKER_USERNAME env"
  let ?payload = "[(''course_id'', course_id course_enrollment),
                   (''username'', username (owner course_enrollment))]"
  let ?e3 = "Log INFO False ''Attempting to create a refund for user [%s], course [%s]...''
               [AInt (user_id (owner course_enrollment)), AStr (course_id course_enrollment)]"
  show thesis
  proof (cases "get_service_user env (trace w) ?name")
    case (Inl e)
    let ?pre = "[Call (GetServiceUser ?name) (Raised e)]"
    show thesis
      by (rule failed [where pre = ?pre and e = e])
         (use run Inl in \<open>simp_all add: refund_seat_def prog_defs opened_refunds_def\<close>)
  next
    case su: (Inr u1)
    let ?e1 = "Call (GetServiceUser ?name) RUnit"
    show thesis
    proof (cases "ecommerce_api_client env (trace w @ [?e1])")
      case (Inl e)
      let ?pre = "[?e1, Call EcommerceApiClient (Raised e)]"
      show thesis
        by (rule failed [where pre = ?pre and e = e])
           (use run su Inl in \<open>simp_all add: refund_seat_def prog_defs opened_refunds_def\<close>)
    next
      case cl: (Inr u2)
      let ?e2 = "Call EcommerceApiClient RUnit"
      show thesis
      proof (cases "refunds_post env (trace w @ [?e1, ?e2, ?e3]) ?payload")
        case (Inl e)
        let ?pre = "[?e1, ?e2, ?e3, Call (RefundsPost ?payload) (Raised e)]"
        show thesis
          by (rule failed [where pre = ?pre and e = e])
             (use run su cl Inl in \<open>simp_all add: refund_seat_def prog_defs opened_refunds_def\<close>)
      next
        case post: (Inr refund_ids)
        let ?e4 = "Call (RefundsPost ?payload) (RIds refund_ids)"
        show thesis
        proof (cases "refund_ids = []")
          case True
          let ?pre = "[?e1, ?e2, ?e3, ?e4, Log INFO False ''No refund opened for user [%s], course [%s]''
                         [AInt (user_id (owner course_enrollment)), AStr (course_id course_enrollment)]]"
          show thesis
            by (rule unopened [where pre = ?pre])
               (use run su cl post True in \<open>simp_all add: refund_seat_def prog_defs opened_refunds_def\<close>)
        next
          case False
          let ?pre = "[?e1, ?e2, ?e3, ?e4,
                       Log INFO False ''Refund successfully opened for user [%s], course [%s]: %r''
                         [AInt (user_id (owner course_enrollment)), AStr (course_id course_enrollment),
                          AIds refund_ids]]"
          let ?w1 = "w\<lparr>trace := trace w @ ?pre\<rparr>"
          have eq: "refund_seat env course_enrollment w =
                      (case process_refund env refund_ids course_enrollment False ?w1 of
                         (Inl e, w2) \<Rightarrow> (Inl e, w2) | (Inr u, w2) \<Rightarrow> (Inr refund_ids, w2))"
            using su cl post False
            by (simp add: refund_seat_def prog_defs split: prod.split sum.split)
          obtain r2 w2 where p: "process_refund env refund_ids course_enrollment False ?w1 = (r2, w2)"
            by (cases "process_refund env refund_ids course_enrollment False ?w1")
          have res: "w' = w2" "r = (case r2 of Inl e \<Rightarrow> Inl e | Inr u \<Rightarrow> Inr refund_ids)"
            using run eq p by (simp_all split: sum.splits)
          show thesis
            by (rule opened [where pre = ?pre and refund_ids = refund_ids and ?r2.0 = r2])
               (use False res p in \<open>simp_all add: opened_refunds_def\<close>)
        qed
      qed
    qed
  qed
qed

lemma refund_entitlement_cases:
  assumes run: "refund_entitlement env course_entitlement w = (r, w')"
  obtains
    (failed) e pre out rest where "r = Inl e" "w' = w\<lparr>trace := trace w @ pre\<rparr>"
      "list_all setup_event pre" "opened_refunds pre = []"
      "pre = Call (GetServiceUser (ECOMMERCE_SERVICE_WORKER_USERNAME env)) out # rest"
  | (unopened) pre out rest where "r = Inr []" "w' = w\<lparr>trace := trace w @ pre\<rparr>"
      "list_all setup_event pre" "opened_refunds pre = [[]]" "pre \<noteq> []" "is_no_refund_log (last pre)"
      "pre = Call (GetServiceUser (ECOMMERCE_SERVICE_WORKER_USERNAME env)) out # rest"
  | (opened) refund_ids pre r2 out rest where "refund_ids \<noteq> []"
      "list_all setup_event pre" "opened_refunds pre = [refund_ids]"
      "process_refund env refund_ids course_entitlement True (w\<lparr>trace := trace w @ pre\<rparr>) = (r2, w')"
      "r = (case r2 of Inl e \<Rightarrow> Inl e | Inr u \<Rightarrow> Inr refund_ids)"
      "pre = Call (GetServiceUser (ECOMMERCE_SERVICE_WORKER_USERNAME env)) out # rest"
proof -
  let ?name = "ECOMMERCE_SERVICE_WORKER_USERNAME env"
  let ?payload = "[(''order_number'', order_number course_entitlement),
                   (''username'', username (owner course_entitlement)),
                   (''entitlement_uuid'', uuid course_entitlement)]"
  let ?e3 = "Log INFO False ''Attempting to create a refund for user [%s], course entitlement [%s]...''
               [AStr (username (owner course_entitlement)), AStr (uuid course_entitlement)]"
  show thesis
  proof (cases "get_service_user env (trace w) ?name")
    case (Inl e)
    let ?pre = "[Call (GetServiceUser ?name) (Raised e)]"
    show thesis
      by (rule failed [where pre = ?pre and e = e])
         (use run Inl in \<open>simp_all add: refund_entitlement_def prog_defs opened_refunds_def\<close>)
  next
    case su: (Inr u1)
    let ?e1 = "Call (GetServiceUser ?name) RUnit"
    show thesis
    proof (cases "ecommerce_api_client env (trace w @ [?e1])")
      case (Inl e)
      let ?pre = "[?e1, Call EcommerceApiClient (Raised e)]"
      show thesis
        by (rule failed [where pre = ?pre and e = e])
           (use run su Inl in \<open>simp_all add: refund_entitlement_def prog_defs opened_refunds_def\<close>)
    next
      case cl: (Inr u2)
      let ?e2 = "Call EcommerceApiClient RUnit"
      show thesis
      proof (cases "refunds_post env (trace w @ [?e1, ?e2, ?e3]) ?payload")
        case (Inl e)
        let ?pre = "[?e1, ?e2, ?e3, Call (RefundsPost ?payload) (Raised e)]"
        show thesis
          by (rule failed [where pre = ?pre and e = e])
             (use run su cl Inl in \<open>simp_all add: refund_entitlement_def prog_defs opened_refunds_def\<close>)
      next
        case post: (Inr refund_ids)
        let ?e4 = "Call (RefundsPost ?payload) (RIds refund_ids)"
        show thesis
        proof (cases "refund_ids = []")
          case True
          let ?pre = "[?e1, ?e2, ?e3, ?e4, Log INFO False ''No refund opened for user [%s], course entitlement [%s]''
                         [AInt (user_id (owner course_entitlement)), AStr (uuid course_entitlement)]]"
          show thesis
            by (rule unopened [where pre = ?pre])
               (use run su cl post True in \<open>simp_all add: refund_entitlement_def prog_defs opened_refunds_def\<close>)
        next
          case False
          let ?pre = "[?e1, ?e2, ?e3, ?e4,
                       Log INFO False ''Refund successfully opened for user [%s], course entitlement [%s]: %r''
                         [AStr (username (owner course_entitlement)), AStr (uuid course_entitlement),
                          AIds refund_ids]]"
          let ?w1 = "w\<lparr>trace := trace w @ ?pre\<rparr>"
          have eq: "refund_entitlement env course_entitlement w =
                      (case process_refund env refund_ids course_entitlement True ?w1 of
                         (Inl e, w2) \<Rightarrow> (Inl e, w2) | (Inr u, w2) \<Rightarrow> (Inr refund_ids, w2))"
            using su cl post False
            by (simp add: refund_entitlement_def prog_defs split: prod.split sum.split)
          obtain r2 w2 where p: "process_refund env refund_ids course_entitlement True ?w1 = (r2, w2)"
            by (cases "process_refund env refund_ids course_entitlement True ?w1")
          have res: "w' = w2" "r = (case r2 of Inl e \<Rightarrow> Inl e | Inr u \<Rightarrow> Inr refund_ids)"
            using run eq p by (simp_all split: sum.splits)
          show thesis
            by (rule opened [where pre = ?pre and refund_ids = refund_ids and ?r2.0 = r2])
               (use False res p in \<open>simp_all add: opened_refunds_def\<close>)
        qed
      qed
    qed
  qed
qed

text \<open>Both functions at once; \<open>is_entitlement\<close> tells which of them runs.\<close>

lemma refund_flow_cases:
  assumes which: "(f = refund_seat \<and> \<not> is_entitlement) \<or> (f = refund_entitlement \<and> is_entitlement)"
    and run: "f env course_product w = (r, w')"
  obtains
    (failed) e pre out rest where "r = Inl e" "w' = w\<lparr>trace := trace w @ pre\<rparr>"
      "list_all setup_event pre" "opened_refunds pre = []"
      "pre = Call (GetServiceUser (ECOMMERCE_SERVICE_WORKER_USERNAME env)) out # rest"
  | (unopened) pre out rest where "r = Inr []" "w' = w\<lparr>trace := trace w @ pre\<rparr>"
      "list_all setup_event pre" "opened_refunds pre = [[]]" "pre \<noteq> []" "is_no_refund_log (last pre)"
      "pre = Call (GetServiceUser (ECOMMERCE_SERVICE_WORKER_USERNAME env)) out # rest"
  | (opened) refund_ids pre r2 out rest where "refund_ids \<noteq> []"
      "list_all setup_event pre" "opened_refunds pre = [refund_ids]"
      "process_refund env refund_ids course_product is_entitlement (w\<lparr>trace := trace w @ pre\<rparr>) = (r2, w')"
      "r = (case r2 of Inl e \<Rightarrow> Inl e | Inr u \<Rightarrow> Inr refund_ids)"
      "pre = Call (GetServiceUser (ECOMMERCE_SERVICE_WORKER_USERNAME env)) out # rest"
proof (cases is_entitlement)
  case False
  then have "refund_seat env course_product w = (r, w')" using which run by auto
  then show thesis
  proof (cases rule: refund_seat_cases)
    case failed' : (failed e pre out rest)
    then show ?thesis by (rule failed)
  next
    case unopened' : (unopened pre out rest)
    then show ?thesis by (rule unopened)
  next
    case opened' : (opened refund_ids pre r2 out rest)
    show ?thesis
      by (rule opened [OF opened'(1,2,3) _ opened'(5,6)]) (use opened'(4) False in simp)
  qed
next
  case True
  then have "refund_entitlement env course_product w = (r, w')" using which run by auto
  then show thesis
  proof (cases rule: refund_entitlement_cases)
    case failed' : (failed e pre out rest)
    then show ?thesis by (rule failed)
  next
    case unopened' : (unopened pre out rest)
    then show ?thesis by (rule unopened)
  next
    case opened' : (opened refund_ids pre r2 out rest)
    show ?thesis
      by (rule opened [OF opened'(1,2,3) _ opened'(5,6)]) (use opened'(4) True in simp)
  qed
qed

lemma setup_event_no_approval_attempt: "setup_event ev \<Longrightarrow> approval_attempt ev = []"
  by (cases ev rule: approval_attempt.cases) auto

lemma setup_event_not_notification_attempt: "setup_event ev \<Longrightarrow> \<not> is_notification_attempt ev"
  by (cases ev rule: is_notification_attempt.cases) auto

lemma processing_event_no_opened_refund: "processing_event ev \<Longrightarrow> opened_refund ev = []"
  by (cases ev rule: opened_refund.cases) auto

lemma setup_events_silent:
  assumes "list_all setup_event evs"
  shows "approval_attempts evs = []" "\<not> notification_attempted evs"
  unfolding approval_attempts_def notification_attempted_def
  using assms
  by (simp_all add: concat_map_Nil [where P = setup_event] setup_event_no_approval_attempt
        list_ex_False_list_all [where P = setup_event] setup_event_not_notification_attempt)

lemma processing_events_open_nothing:
  assumes "list_all processing_event evs"
  shows "opened_refunds evs = []"
  unfolding opened_refunds_def
  using assms
  by (simp add: concat_map_Nil [where P = processing_event] processing_event_no_opened_refund)

lemma opened_refunds_append:
  "opened_refunds (xs @ ys) = opened_refunds xs @ opened_refunds ys"
  by (simp add: opened_refunds_def)

lemma process_refund_returns:
  assumes cfg: "enable_automatic_refund_approval env (trace w) = Inr automatic"
  shows "fst (process_refund env refund_ids course_product is_entitlement w) = Inr ()"
proof -
  obtain evs1 w1 where d:
    "process_refund env refund_ids course_product is_entitlement w =
       notify_refunds_requiring_approval env course_product is_entitlement
         (if automatic then failed_approvals evs1 else refund_ids) w1"
    using process_refund_decompose [OF cfg] by metis
  obtain evs2 w2 where
    "notify_refunds_requiring_approval env course_product is_entitlement
       (if automatic then failed_approvals evs1 else refund_ids) w1 = (Inr (), w2)"
    using notify_refunds_requiring_approval_run by metis
  then show ?thesis using d by simp
qed

text \<open>\<open>_process_refund\<close> raises only when reading the configuration raises.\<close>

lemma process_refund_result:
  assumes run: "process_refund env refund_ids course_product is_entitlement w = (r, w')"
  obtains evs where "trace w' = trace w @ evs" "list_all processing_event evs"
    "r = Inr () \<or> (\<exists>e. r = Inl e \<and> evs = [Call CommerceConfigurationCurrent (Raised e)])"
proof -
  obtain evs where evs: "trace (snd (process_refund env refund_ids course_product is_entitlement w)) =
                           trace w @ evs" "list_all processing_event evs"
    using only_process_refund by (rule onlyE)
  have tr: "trace w' = trace w @ evs" using evs(1) run by simp
  show thesis
  proof (cases "enable_automatic_refund_approval env (trace w)")
    case (Inl e)
    then have "r = Inl e" "trace w' = trace w @ [Call CommerceConfigurationCurrent (Raised e)]"
      using run by (auto simp: process_refund_def prog_defs)
    then have "r = Inr () \<or> (\<exists>e. r = Inl e \<and> evs = [Call CommerceConfigurationCurrent (Raised e)])"
      using tr by simp
    then show thesis using that [OF tr evs(2)] by simp
  next
    case (Inr automatic)
    have "r = Inr ()"
      using process_refund_returns [OF Inr, of refund_ids course_product is_entitlement] run by simp
    then show thesis using that [OF tr evs(2)] by simp
  qed
qed

subsection \<open>The handlers\<close>

lemma handler_logs_silent:
  assumes "list_all is_handler_exception_log tail"
  shows "Call c out \<notin> set tail" "\<not> list_ex is_refund_attempt tail" "filter is_outbound tail = []"
proof -
  have a: "is_handler_exception_log ev \<Longrightarrow> ev \<noteq> Call c out" for ev
    by (cases ev rule: is_handler_exception_log.cases) auto
  have b: "is_handler_exception_log ev \<Longrightarrow> \<not> is_refund_attempt ev" for ev
    by (cases ev rule: is_handler_exception_log.cases) auto
  have d: "is_handler_exception_log ev \<Longrightarrow> \<not> is_outbound ev" for ev
    by (cases ev rule: is_handler_exception_log.cases) auto
  show "Call c out \<notin> set tail" using assms a by (auto simp: list_all_iff)
  show "\<not> list_ex is_refund_attempt tail"
    using assms by (rule list_ex_False_list_all) (rule b)
  show "filter is_outbound tail = []"
    using assms by (rule filter_Nil_list_all) (rule d)
qed

text \<open>
  The \<open>try\<close> statement of \<open>handle_refund_order\<close>: the body returns, raises an instance of
  \<open>Exception\<close>, which is logged, or raises another exception, which is not caught.
\<close>

lemma order_try_statement:
  assumes body: "m w = (r3, w3)"
  obtains tail where
    "try_except_Exception m
       (\<lambda>e. log ERROR True
               ''Unexpected exception while attempting to initiate refund for user [%s], course [%s]''
               [AInt (user_id (owner ce)), AStr (course_id ce)]) w =
       (case r3 of Inr v \<Rightarrow> Inr v | Inl e \<Rightarrow> if is_Exception e then Inr () else Inl e,
        w3\<lparr>trace := trace w3 @ tail\<rparr>)"
    "list_all is_handler_exception_log tail"
proof (cases r3)
  case (Inr v)
  show thesis
    by (rule that [where tail = "[]"])
       (use body Inr in \<open>simp_all add: try_except_Exception_def\<close>)
next
  case (Inl e)
  show thesis
  proof (cases "is_Exception e")
    case True
    show thesis
      by (rule that [where tail = "[Log ERROR True
               ''Unexpected exception while attempting to initiate refund for user [%s], course [%s]''
               [AInt (user_id (owner ce)), AStr (course_id ce)]]"])
         (use body Inl True in \<open>simp_all add: try_except_Exception_def log_def emit_def\<close>)
  next
    case False
    show thesis
      by (rule that [where tail = "[]"])
         (use body Inl False in \<open>simp_all add: try_except_Exception_def\<close>)
  qed
qed

text \<open>The same for \<open>handle_refund_entitlement\<close>, where \<open>str(exc)\<close> may raise in the clause.\<close>

lemma entitlement_try_statement:
  assumes body: "m w = (r3, w3)"
  obtains tail where
    "try_except_Exception m
       (\<lambda>exc. and_then (evaluate (exn_str exc)) (\<lambda>message.
                 log ERROR True
                   (''Unexpected exception while attempting to initiate refund for user [%s], '' @
                    ''course entitlement [%s] message: [%s]'')
                   [AInt (user_id (owner ce)), AStr (uuid ce), AStr message])) w =
       (case r3 of
          Inr v \<Rightarrow> Inr v
        | Inl e \<Rightarrow> if is_Exception e
                   then (case exn_str e of Inr message \<Rightarrow> Inr () | Inl e' \<Rightarrow> Inl e')
                   else Inl e,
        w3\<lparr>trace := trace w3 @ tail\<rparr>)"
    "list_all is_handler_exception_log tail"
proof (cases r3)
  case (Inr v)
  show thesis
    by (rule that [where tail = "[]"])
       (use body Inr in \<open>simp_all add: try_except_Exception_def\<close>)
next
  case (Inl e)
  show thesis
  proof (cases "is_Exception e")
    case False
    show thesis
      by (rule that [where tail = "[]"])
         (use body Inl False in \<open>simp_all add: try_except_Exception_def\<close>)
  next
    case True
    show thesis
    proof (cases "exn_str e")
      case str_raised: (Inl e')
      show thesis
        by (rule that [where tail = "[]"])
           (use body Inl True str_raised in
             \<open>simp_all add: try_except_Exception_def and_then_def evaluate_def\<close>)
    next
      case (Inr message)
      show thesis
        by (rule that [where tail = "[Log ERROR True
                 ''Unexpected exception while attempting to initiate refund for user [%s], course entitlement [%s] message: [%s]''
                 [AInt (user_id (owner ce)), AStr (uuid ce), AStr message]]"])
           (use body \<open>r3 = Inl e\<close> True Inr in
             \<open>simp_all add: try_except_Exception_def and_then_def evaluate_def log_def emit_def\<close>)
    qed
  qed
qed

text \<open>The ways \<open>handle_refund_order\<close> can go.\<close>

lemma handle_refund_order_cases:
  assumes run: "handle_refund_order env course_enrollment w = (r, w')"
  obtains
    (config_raised) e where "r = Inl e"
      "w' = w\<lparr>trace := trace w @ [Call IsCommerceServiceConfigured (Raised e)]\<rparr>"
  | (unconfigured) "r = Inr ()"
      "w' = w\<lparr>trace := trace w @ [Call IsCommerceServiceConfigured (RBool False)]\<rparr>"
  | (no_product) "course_enrollment = None" "r = Inr ()"
      "w' = w\<lparr>trace := trace w @ [Call IsCommerceServiceConfigured (RBool True)]\<rparr>"
  | (check_raised) ce e where "course_enrollment = Some ce" "r = Inl e"
      "w' = w\<lparr>trace := trace w @ [Call IsCommerceServiceConfigured (RBool True),
                                      Call (Refundable ce) (Raised e)]\<rparr>"
  | (not_refundable) ce where "course_enrollment = Some ce" "r = Inr ()"
      "w' = w\<lparr>trace := trace w @ [Call IsCommerceServiceConfigured (RBool True),
                                      Call (Refundable ce) (RBool False)]\<rparr>"
  | (unresolved) ce e tail where "course_enrollment = Some ce"
      "r = (if is_Exception e then Inr () else Inl e)"
      "w' = w\<lparr>trace := trace w @
              [Call IsCommerceServiceConfigured (RBool True), Call (Refundable ce) (RBool True),
               Call GetCurrentRequest (Raised e)] @ tail\<rparr>"
      "list_all is_handler_exception_log tail"
  | (anonymous) ce where "course_enrollment = Some ce" "r = Inr ()"
      "w' = w\<lparr>trace := trace w @
              [Call IsCommerceServiceConfigured (RBool True), Call (Refundable ce) (RBool True),
               Call GetCurrentRequest (RUser AnonymousUser)]\<rparr>"
  | (refund) ce ru r3 w3 tail where "course_enrollment = Some ce"
      "r = (case r3 of Inr ids \<Rightarrow> Inr () | Inl e \<Rightarrow> if is_Exception e then Inr () else Inl e)"
      "ru \<noteq> AnonymousUser"
      "refund_seat env ce
         (w\<lparr>trace := trace w @
              [Call IsCommerceServiceConfigured (RBool True), Call (Refundable ce) (RBool True),
               Call GetCurrentRequest (RUser ru)]\<rparr>) = (r3, w3)"
      "trace w' = trace w3 @ tail"
      "list_all is_handler_exception_log tail"
proof (cases "is_commerce_service_configured env (trace w)")
  case (Inl e)
  show thesis
    by (rule config_raised [where e = e])
       (use run Inl in \<open>simp_all add: handle_refund_order_def prog_defs\<close>)
next
  case cfg: (Inr configured)
  show thesis
  proof (cases configured)
    case False
    show thesis
      by (rule unconfigured)
         (use run cfg False in \<open>simp_all add: handle_refund_order_def prog_defs\<close>)
  next
    case True
    let ?c1 = "Call IsCommerceServiceConfigured (RBool True)"
    show thesis
    proof (cases course_enrollment)
      case None
      show thesis
        by (rule no_product)
           (use run cfg True None in \<open>simp_all add: handle_refund_order_def prog_defs\<close>)
    next
      case (Some ce)
      show thesis
      proof (cases "refundable env (trace w @ [?c1]) ce")
        case (Inl e)
        show thesis
          by (rule check_raised [where e = e and ce = ce])
             (use run cfg True Some Inl in \<open>simp_all add: handle_refund_order_def prog_defs\<close>)
      next
        case chk: (Inr ok)
        show thesis
        proof (cases ok)
          case False
          show thesis
            by (rule not_refundable [where ce = ce])
               (use run cfg True Some chk False in \<open>simp_all add: handle_refund_order_def prog_defs\<close>)
        next
          case ok: True
          let ?c2 = "Call (Refundable ce) (RBool True)"
          let ?w2 = "w\<lparr>trace := trace w @ [?c1, ?c2]\<rparr>"
          let ?log = "\<lambda>e. log ERROR True
               ''Unexpected exception while attempting to initiate refund for user [%s], course [%s]''
               [AInt (user_id (owner ce)), AStr (course_id ce)]"
          have handler: "handle_refund_order env course_enrollment w =
                           try_except_Exception (refund_order_attempt env ce) ?log ?w2"
            using cfg True Some chk ok
            by (simp add: handle_refund_order_def and_then_def perform_def emit_def Let_def)
          obtain r3 w3 where body: "refund_order_attempt env ce ?w2 = (r3, w3)"
            by (cases "refund_order_attempt env ce ?w2")
          obtain tail where try_st:
            "try_except_Exception (refund_order_attempt env ce) ?log ?w2 =
               (case r3 of Inr v \<Rightarrow> Inr v | Inl e \<Rightarrow> if is_Exception e then Inr () else Inl e,
                w3\<lparr>trace := trace w3 @ tail\<rparr>)"
            "list_all is_handler_exception_log tail"
            using body by (rule order_try_statement)
          have res: "r = (case r3 of Inr v \<Rightarrow> Inr v | Inl e \<Rightarrow> if is_Exception e then Inr () else Inl e)"
            "w' = w3\<lparr>trace := trace w3 @ tail\<rparr>"
            using run handler try_st(1) by simp_all
          show thesis
          proof (cases "get_current_request_user env (trace w @ [?c1, ?c2])")
            case (Inl e)
            have b: "r3 = Inl e"
              "w3 = w\<lparr>trace := trace w @ [?c1, ?c2, Call GetCurrentRequest (Raised e)]\<rparr>"
              using body Inl
              by (simp_all add: refund_order_attempt_def get_request_user_def prog_defs)
            show thesis
              by (rule unresolved [where e = e and ce = ce and tail = tail])
                 (use Some res b try_st(2) in simp_all)
          next
            case usr: (Inr ru)
            let ?w3 = "w\<lparr>trace := trace w @ [?c1, ?c2, Call GetCurrentRequest (RUser ru)]\<rparr>"
            show thesis
            proof (cases "or_user ru (owner ce) = AnonymousUser")
              case True
              then have anon: "ru = AnonymousUser" by (cases ru) simp_all
              have b: "r3 = Inr ()" "w3 = ?w3"
                using body usr anon
                by (simp_all add: refund_order_attempt_def get_request_user_def prog_defs)
              have "w3 = w3\<lparr>trace := trace w3 @ tail\<rparr>"
                using try_st(1) body b(1) by (simp add: try_except_Exception_def)
              then have "trace w3 = trace (w3\<lparr>trace := trace w3 @ tail\<rparr>)"
                by (rule arg_cong)
              then have "tail = []" by simp
              then show thesis
                using Some res b anon by (intro anonymous [where ce = ce]) simp_all
            next
              case False
              then have ne: "ru \<noteq> AnonymousUser" by (cases ru) simp_all
              obtain r4 w4 where seat: "refund_seat env ce ?w3 = (r4, w4)"
                by (cases "refund_seat env ce ?w3")
              have b: "r3 = (case r4 of Inl e \<Rightarrow> Inl e | Inr ids \<Rightarrow> Inr ())" "w3 = w4"
                using body usr False seat
                by (simp_all add: refund_order_attempt_def get_request_user_def prog_defs
                      split: sum.splits)
              show thesis
                by (rule refund [where ce = ce and ru = ru and ?r3.0 = r4 and ?w3.0 = w4
                                   and tail = tail])
                   (use Some res b ne seat try_st(2) in \<open>simp_all split: sum.splits\<close>)
            qed
          qed
        qed
      qed
    qed
  qed
qed

text \<open>The ways \<open>handle_refund_entitlement\<close> can go.\<close>

lemma handle_refund_entitlement_cases:
  assumes run: "handle_refund_entitlement env course_entitlement w = (r, w')"
  obtains
    (config_raised) e where "r = Inl e"
      "w' = w\<lparr>trace := trace w @ [Call IsCommerceServiceConfigured (Raised e)]\<rparr>"
  | (unconfigured) "r = Inr ()"
      "w' = w\<lparr>trace := trace w @ [Call IsCommerceServiceConfigured (RBool False)]\<rparr>"
  | (no_product) "course_entitlement = None" "r = Inr ()"
      "w' = w\<lparr>trace := trace w @ [Call IsCommerceServiceConfigured (RBool True)]\<rparr>"
  | (check_raised) ce e where "course_entitlement = Some ce" "r = Inl e"
      "w' = w\<lparr>trace := trace w @ [Call IsCommerceServiceConfigured (RBool True),
                                      Call (IsEntitlementRefundable ce) (Raised e)]\<rparr>"
  | (not_refundable) ce where "course_entitlement = Some ce" "r = Inr ()"
      "w' = w\<lparr>trace := trace w @ [Call IsCommerceServiceConfigured (RBool True),
                                      Call (IsEntitlementRefundable ce) (RBool False)]\<rparr>"
  | (unresolved) ce e tail where "course_entitlement = Some ce"
      "w' = w\<lparr>trace := trace w @
              [Call IsCommerceServiceConfigured (RBool True), Call (IsEntitlementRefundable ce) (RBool True),
               Call GetCurrentRequest (Raised e)] @ tail\<rparr>"
      "list_all is_handler_exception_log tail"
  | (no_match) ce ru where "course_entitlement = Some ce" "r = Inr ()"
      "\<not> (ru \<noteq> NoUser \<and> is_owner (owner ce) ru)"
      "w' = w\<lparr>trace := trace w @
              [Call IsCommerceServiceConfigured (RBool True), Call (IsEntitlementRefundable ce) (RBool True),
               Call GetCurrentRequest (RUser ru)]\<rparr>"
  | (refund) ce ru r3 w3 tail where "course_entitlement = Some ce"
      "ru \<noteq> NoUser" "is_owner (owner ce) ru"
      "refund_entitlement env ce
         (w\<lparr>trace := trace w @
              [Call IsCommerceServiceConfigured (RBool True), Call (IsEntitlementRefundable ce) (RBool True),
               Call GetCurrentRequest (RUser ru)]\<rparr>) = (r3, w3)"
      "trace w' = trace w3 @ tail"
      "list_all is_handler_exception_log tail"
proof (cases "is_commerce_service_configured env (trace w)")
  case (Inl e)
  show thesis
    by (rule config_raised [where e = e])
       (use run Inl in \<open>simp_all add: handle_refund_entitlement_def prog_defs\<close>)
next
  case cfg: (Inr configured)
  show thesis
  proof (cases configured)
    case False
    show thesis
      by (rule unconfigured)
         (use run cfg False in \<open>simp_all add: handle_refund_entitlement_def prog_defs\<close>)
  next
    case True
    let ?c1 = "Call IsCommerceServiceConfigured (RBool True)"
    show thesis
    proof (cases course_entitlement)
      case None
      show thesis
        by (rule no_product)
           (use run cfg True None in \<open>simp_all add: handle_refund_entitlement_def prog_defs\<close>)
    next
      case (Some ce)
      show thesis
      proof (cases "is_entitlement_refundable env (trace w @ [?c1]) ce")
        case (Inl e)
        show thesis
          by (rule check_raised [where e = e and ce = ce])
             (use run cfg True Some Inl in \<open>simp_all add: handle_refund_entitlement_def prog_defs\<close>)
      next
        case chk: (Inr ok)
        show thesis
        proof (cases ok)
          case False
          show thesis
            by (rule not_refundable [where ce = ce])
               (use run cfg True Some chk False in \<open>simp_all add: handle_refund_entitlement_def prog_defs\<close>)
        next
          case ok: True
          let ?c2 = "Call (IsEntitlementRefundable ce) (RBool True)"
          let ?w2 = "w\<lparr>trace := trace w @ [?c1, ?c2]\<rparr>"
          let ?log = "\<lambda>exc. and_then (evaluate (exn_str exc)) (\<lambda>message.
                 log ERROR True
                   (''Unexpected exception while attempting to initiate refund for user [%s], '' @
                    ''course entitlement [%s] message: [%s]'')
                   [AInt (user_id (owner ce)), AStr (uuid ce), AStr message])"
          have handler: "handle_refund_entitlement env course_entitlement w =
                           try_except_Exception (refund_entitlement_attempt env ce) ?log ?w2"
            using cfg True Some chk ok
            by (simp add: handle_refund_entitlement_def and_then_def perform_def emit_def Let_def)
          obtain r3 w3 where body: "refund_entitlement_attempt env ce ?w2 = (r3, w3)"
            by (cases "refund_entitlement_attempt env ce ?w2")
          obtain tail where try_st:
            "try_except_Exception (refund_entitlement_attempt env ce) ?log ?w2 =
               (case r3 of
                  Inr v \<Rightarrow> Inr v
                | Inl e \<Rightarrow> if is_Exception e
                           then (case exn_str e of Inr message \<Rightarrow> Inr () | Inl e' \<Rightarrow> Inl e')
                           else Inl e,
                w3\<lparr>trace := trace w3 @ tail\<rparr>)"
            "list_all is_handler_exception_log tail"
            using body by (rule entitlement_try_statement)
          have res: "r = (case r3 of
                  Inr v \<Rightarrow> Inr v
                | Inl e \<Rightarrow> if is_Exception e
                           then (case exn_str e of Inr message \<Rightarrow> Inr () | Inl e' \<Rightarrow> Inl e')
                           else Inl e)"
            "w' = w3\<lparr>trace := trace w3 @ tail\<rparr>"
            using run handler try_st(1) by simp_all
          show thesis
          proof (cases "get_current_request_user env (trace w @ [?c1, ?c2])")
            case (Inl e)
            have b: "r3 = Inl e"
              "w3 = w\<lparr>trace := trace w @ [?c1, ?c2, Call GetCurrentRequest (Raised e)]\<rparr>"
              using body Inl
              by (simp_all add: refund_entitlement_attempt_def get_request_user_def prog_defs)
            show thesis
              by (rule unresolved [where e = e and ce = ce and tail = tail])
                 (use Some res b try_st(2) in simp_all)
          next
            case usr: (Inr ru)
            let ?w3 = "w\<lparr>trace := trace w @ [?c1, ?c2, Call GetCurrentRequest (RUser ru)]\<rparr>"
            show thesis
            proof (cases "ru \<noteq> NoUser \<and> is_owner (owner ce) ru")
              case False
              have b: "r3 = Inr ()" "w3 = ?w3"
                using body usr False
                by (simp_all add: refund_entitlement_attempt_def get_request_user_def prog_defs)
              have "w3 = w3\<lparr>trace := trace w3 @ tail\<rparr>"
                using try_st(1) body b(1) by (simp add: try_except_Exception_def)
              then have "trace w3 = trace (w3\<lparr>trace := trace w3 @ tail\<rparr>)"
                by (rule arg_cong)
              then have "tail = []" by simp
              then show thesis
                using Some res b False by (intro no_match [where ce = ce and ru = ru]) simp_all
            next
              case True
              obtain r4 w4 where seat: "refund_entitlement env ce ?w3 = (r4, w4)"
                by (cases "refund_entitlement env ce ?w3")
              have b: "w3 = w4"
                using body usr True seat
                by (simp_all add: refund_entitlement_attempt_def get_request_user_def prog_defs
                      split: sum.splits)
              show thesis
                by (rule refund [where ce = ce and ru = ru and ?r3.0 = r4 and ?w3.0 = w4
                                   and tail = tail])
                   (use Some res b True seat try_st(2) in simp_all)
            qed
          qed
        qed
      qed
    qed
  qed
qed

lemma refund_flow_events:
  assumes which: "(f = refund_seat \<and> \<not> is_entitlement) \<or> (f = refund_entitlement \<and> is_entitlement)"
    and run: "f env course_product w = (r, w')"
  obtains out rest where
    "trace w' = trace w @ Call (GetServiceUser (ECOMMERCE_SERVICE_WORKER_USERNAME env)) out # rest"
    "list_all (\<lambda>ev. setup_event ev \<or> processing_event ev) rest"
  using which run
proof (cases rule: refund_flow_cases)
  case (failed e pre out rest)
  then have "list_all (\<lambda>ev. setup_event ev \<or> processing_event ev) rest"
    by (auto simp: list_all_iff)
  then show ?thesis using that failed by simp
next
  case (unopened pre out rest)
  then have "list_all (\<lambda>ev. setup_event ev \<or> processing_event ev) rest"
    by (auto simp: list_all_iff)
  then show ?thesis using that unopened by simp
next
  case (opened refund_ids pre r2 out rest)
  obtain evs where evs: "trace w' = trace (w\<lparr>trace := trace w @ pre\<rparr>) @ evs"
    "list_all processing_event evs"
    using opened(4) by (rule process_refund_result)
  have "list_all (\<lambda>ev. setup_event ev \<or> processing_event ev) (rest @ evs)"
    using opened(2,6) evs(2) by (auto simp: list_all_iff)
  moreover have "trace w' = trace w @ Call (GetServiceUser (ECOMMERCE_SERVICE_WORKER_USERNAME env)) out # (rest @ evs)"
    using evs(1) opened(6) by simp
  ultimately show ?thesis using that by blast
qed

lemma refund_event_not_request:
  "setup_event ev \<or> processing_event ev \<Longrightarrow> ev \<noteq> Call GetCurrentRequest out"
  by (cases ev rule: setup_event.cases) auto

subsection \<open>\<open>create_zendesk_ticket\<close>\<close>

text \<open>
  \<open>create_zendesk_ticket\<close> with the Zendesk settings present, step by step: the copy of the
  tags, the payload and the URL, the request, and the log record that answers its outcome.
\<close>

lemma create_zendesk_ticket_configured:
  assumes conf: "truthy (ZENDESK_URL env) \<and> truthy (ZENDESK_USER env) \<and> truthy (ZENDESK_API_KEY env)"
  obtains
    (unprepared) e copied where
      "create_zendesk_ticket env name mail subj body tags w =
         (Inl e, \<lparr>trace = trace w,
                   heap = heap w @ [copied @ [''LMS''], set_iteration env (copied @ [''LMS''])]\<rparr>)"
      "copied = (case tags of None \<Rightarrow> [] | Some a \<Rightarrow> list_at w a)"
  | (posted) url payload usr pwd out r tail copied where
      "create_zendesk_ticket env name mail subj body tags w =
         (r, \<lparr>trace = trace w @ Call (RequestsPost url payload usr pwd) out # tail,
               heap = heap w @ [copied @ [''LMS''], set_iteration env (copied @ [''LMS''])]\<rparr>)"
      "copied = (case tags of None \<Rightarrow> [] | Some a \<Rightarrow> list_at w a)"
      "(\<exists>e. out = Raised e \<and> is_Exception e \<and> r = Inr () \<and>
            tail = [Log ERROR True ''Failed to create ticket.'' []]) \<or>
       (\<exists>e. out = Raised e \<and> \<not> is_Exception e \<and> r = Inl e \<and> tail = []) \<or>
       (\<exists>status content. out = RResponse status content \<and> r = Inr () \<and>
            tail = [if status \<noteq> 201
                    then Log ERROR False ''Failed to create ticket. Status: [%d], Body: [%s]''
                           [AInt status, AStr content]
                    else Log DEBUG False ''Successfully created ticket.'' []])"
proof -
  let ?copied = "case tags of None \<Rightarrow> [] | Some a \<Rightarrow> list_at w a"
  let ?data = "\<lparr>requester_name = name, requester_email = mail, subject = subj,
                comment_body = body, ticket_tags = set_iteration env (?copied @ [''LMS''])\<rparr>"
  let ?usr = "setting (ZENDESK_USER env) @ ''/token''"
  let ?pwd = "setting (ZENDESK_API_KEY env)"
  let ?heap = "heap w @ [?copied @ [''LMS''], set_iteration env (?copied @ [''LMS''])]"
  let ?request = "\<lambda>url payload. try_except_Exception
             (and_then
                (perform (RequestsPost url payload ?usr ?pwd) (\<lambda>(status, content). RResponse status content)
                   (\<lambda>h. requests_post env h url payload ?usr ?pwd))
                (\<lambda>(status_code, content).
                   if status_code \<noteq> 201
                   then log ERROR False ''Failed to create ticket. Status: [%d], Body: [%s]''
                          [AInt status_code, AStr content]
                   else log DEBUG False ''Successfully created ticket.'' []))
             (\<lambda>e. log ERROR True ''Failed to create ticket.'' [])"
  have prep: "create_zendesk_ticket env name mail subj body tags w =
          and_then (evaluate (json_dumps env ?data)) (\<lambda>payload.
          and_then (evaluate (urljoin env (setting (ZENDESK_URL env)) ''/api/v2/tickets.json''))
            (\<lambda>url. ?request url payload))
             (w\<lparr>heap := ?heap\<rparr>)"
    using conf
    by (cases tags)
       (simp_all add: create_zendesk_ticket_def and_then_def returns_def new_list_def read_list_def
          list_append_def list_at_def Let_def)
  show thesis
  proof (cases "json_dumps env ?data")
    case (Inl e)
    show thesis
      by (rule unprepared [where e = e and copied = ?copied])
         (use Inl in \<open>simp_all add: prep and_then_def evaluate_def\<close>)
  next
    case dumped: (Inr payload)
    show thesis
    proof (cases "urljoin env (setting (ZENDESK_URL env)) ''/api/v2/tickets.json''")
      case (Inl e)
      show thesis
        by (rule unprepared [where e = e and copied = ?copied])
           (use dumped Inl in \<open>simp_all add: prep and_then_def evaluate_def\<close>)
    next
      case joined: (Inr url)
      have prep2: "create_zendesk_ticket env name mail subj body tags w =
                     ?request url payload (w\<lparr>heap := ?heap\<rparr>)"
        using dumped joined by (simp add: prep and_then_def evaluate_def)
      show thesis
      proof (cases "requests_post env (trace w) url payload ?usr ?pwd")
        case (Inl e)
        show thesis
        proof (cases "is_Exception e")
          case True
          show thesis
            by (rule posted [where out = "Raised e" and r = "Inr ()"
                       and tail = "[Log ERROR True ''Failed to create ticket.'' []]"
                       and copied = ?copied and url = url and payload = payload
                       and usr = ?usr and pwd = ?pwd])
               (use Inl True in \<open>simp_all add: prep2 try_except_Exception_def and_then_def
                   perform_def log_def emit_def Let_def\<close>)
        next
          case False
          show thesis
            by (rule posted [where out = "Raised e" and r = "Inl e" and tail = "[]"
                       and copied = ?copied and url = url and payload = payload
                       and usr = ?usr and pwd = ?pwd])
               (use Inl False in \<open>simp_all add: prep2 try_except_Exception_def and_then_def
                   perform_def log_def emit_def Let_def\<close>)
        qed
      next
        case (Inr resp)
        obtain status content where resp: "resp = (status, content)" by (cases resp)
        show thesis
          by (rule posted [where out = "RResponse status content" and r = "Inr ()"
                       and tail = "[if status \<noteq> 201
                                    then Log ERROR False ''Failed to create ticket. Status: [%d], Body: [%s]''
                                           [AInt status, AStr content]
                                    else Log DEBUG False ''Successfully created ticket.'' []]"
                       and copied = ?copied and url = url and payload = payload
                       and usr = ?usr and pwd = ?pwd])
             (use Inr resp in \<open>simp_all add: prep2 try_except_Exception_def and_then_def
                 perform_def log_def emit_def Let_def\<close>)
      qed
    qed
  qed
qed

lemma create_zendesk_ticket_unconfigured:
  assumes "\<not> (truthy (ZENDESK_URL env) \<and> truthy (ZENDESK_USER env) \<and> truthy (ZENDESK_API_KEY env))"
  shows "create_zendesk_ticket env name mail subj body tags w =
           (Inr (), emit (Log DEBUG False ''Zendesk is not configured. Cannot create a ticket.'' []) w)"
  using assms by (simp add: create_zendesk_ticket_def log_def)

section \<open>The claims\<close>

subsection \<open>C1: approval is attempted for each refund id, failures are isolated\<close>

text \<open>
  C1. In \<open>_process_refund\<close>, with automatic approval enabled, an approval call is made for
  each refund id of the list, in the order of the list, whatever the outcome of the calls
  before it. The ids whose call raised are exactly the ids for which the failure is logged,
  and exactly the list \<open>refunds_requiring_approval\<close> that the loop hands to the notification
  branch.
\<close>

theorem process_refund_approves_each_refund:
  assumes cfg: "enable_automatic_refund_approval env (trace w) = Inr True"
    and run: "process_refund env refund_ids course_product is_entitlement w = (r, w')"
  shows "approval_attempts (events_since w w') = refund_ids \<and>
         approval_failure_logs (events_since w w') = failed_approvals (events_since w w') \<and>
         (let loop = approve_refunds env refund_ids []
                       (emit (Call CommerceConfigurationCurrent (RBool True)) w)
          in fst loop = Inr (failed_approvals (events_since w w')) \<and>
             (r, w') = notify_refunds_requiring_approval env course_product is_entitlement
                         (failed_approvals (events_since w w')) (snd loop))"
proof -
  let ?c = "Call CommerceConfigurationCurrent (RBool True)"
  let ?w0 = "emit ?c w"
  obtain evs1 where loop:
    "approve_refunds env refund_ids [] ?w0 = (Inr ([] @ failed_approvals evs1), ?w0\<lparr>trace := trace ?w0 @ evs1\<rparr>)"
    "approval_attempts evs1 = refund_ids" "approval_failure_logs evs1 = failed_approvals evs1"
    using approve_refunds_trace [of env refund_ids "[]" ?w0] by blast
  let ?w1 = "?w0\<lparr>trace := trace ?w0 @ evs1\<rparr>"
  let ?needs = "failed_approvals evs1"
  have unfold: "process_refund env refund_ids course_product is_entitlement w =
                  notify_refunds_requiring_approval env course_product is_entitlement ?needs ?w1"
    using cfg loop(1) by (simp add: process_refund_def and_then_def perform_def Let_def)
  obtain evs2 where branch:
    "trace (snd (notify_refunds_requiring_approval env course_product is_entitlement ?needs ?w1)) =
       trace ?w1 @ evs2" "list_all branch_event evs2"
    using only_notify_refunds_requiring_approval by (rule onlyE)
  have tr: "trace w' = trace w @ (?c # evs1 @ evs2)"
    using run unfold branch(1) by (simp add: emit_def)
  have ev: "events_since w w' = ?c # evs1 @ evs2"
    using tr by (rule events_since_append)
  have none: "approval_attempts evs2 = []" "failed_approvals evs2 = []" "approval_failure_logs evs2 = []"
    unfolding approval_attempts_def failed_approvals_def approval_failure_logs_def
    using branch(2)
    by (simp_all add: concat_map_Nil [where P = branch_event] branch_event_no_approval_attempt
          branch_event_no_failed_approval branch_event_no_approval_failure_log)
  have a: "approval_attempts (events_since w w') = refund_ids"
    using ev loop(2) none(1) by (simp add: approval_attempts_def)
  have f: "failed_approvals (events_since w w') = ?needs"
    using ev none(2) by (simp add: failed_approvals_def)
  have l: "approval_failure_logs (events_since w w') = ?needs"
    using ev loop(3) none(3) by (simp add: approval_failure_logs_def failed_approvals_def)
  have res: "(r, w') = notify_refunds_requiring_approval env course_product is_entitlement ?needs ?w1"
    using run unfold by metis
  have lp: "fst (approve_refunds env refund_ids [] ?w0) = Inr ?needs"
    "snd (approve_refunds env refund_ids [] ?w0) = ?w1"
    using loop(1) by simp_all
  show ?thesis
    unfolding Let_def a f l lp using loop(3) res by simp
qed

theorem process_refund_approves_each_refund_witness:
  "enable_automatic_refund_approval example_env (trace empty_world) = Inr True \<and>
   approval_attempts (events_since empty_world
      (snd (process_refund example_env [1, 2, 3] example_product False empty_world))) = [1, 2, 3] \<and>
   failed_approvals (events_since empty_world
      (snd (process_refund example_env [1, 2, 3] example_product False empty_world))) = [2] \<and>
   approval_failure_logs (events_since empty_world
      (snd (process_refund example_env [1, 2, 3] example_product False empty_world))) = [2]"
proof -
  have cfg: "enable_automatic_refund_approval example_env (trace empty_world) = Inr True"
    by (simp add: example_env_def)
  have run: "process_refund example_env [1, 2, 3] example_product False empty_world =
               (fst (process_refund example_env [1, 2, 3] example_product False empty_world),
                snd (process_refund example_env [1, 2, 3] example_product False empty_world))"
    by simp
  have loop: "fst (approve_refunds example_env [1, 2, 3] []
                (emit (Call CommerceConfigurationCurrent (RBool True)) empty_world)) = Inr [2]"
    by (simp add: example_env_def empty_world_def and_then_def try_except_def perform_def log_def
          emit_def returns_def Let_def)
  have "failed_approvals (events_since empty_world
          (snd (process_refund example_env [1, 2, 3] example_product False empty_world))) = [2]"
    using process_refund_approves_each_refund [OF cfg run] loop by (simp add: Let_def)
  then show ?thesis
    using process_refund_approves_each_refund [OF cfg run] cfg by simp
qed

subsection \<open>C2: no notification for a mode other than verified, nothing without refunds to approve\<close>

text \<open>
  C2. In \<open>_process_refund\<close>, let \<open>refunds_requiring_approval\<close> be the refund ids whose approval
  failed (automatic approval on) or all refund ids (automatic approval off). The function
  returns normally; a notification is attempted exactly when that list is not empty and the
  mode of the product is \<open>verified\<close>; a suppression message is logged, once, exactly when the
  list is not empty and the mode is not \<open>verified\<close>. So with a non-empty list and another
  mode the notification is skipped and the suppression is logged instead, and with an empty
  list (every refund approved cleanly) neither happens.
\<close>

theorem process_refund_suppresses_unverified:
  assumes cfg: "enable_automatic_refund_approval env (trace w) = Inr automatic"
    and run: "process_refund env refund_ids course_product is_entitlement w = (r, w')"
  shows "let refunds_requiring_approval =
               (if automatic then failed_approvals (events_since w w') else refund_ids)
         in r = Inr () \<and>
            notification_attempted (events_since w w') =
              (refunds_requiring_approval \<noteq> [] \<and> mode course_product = ''verified'') \<and>
            length (suppression_logs (events_since w w')) =
              (if refunds_requiring_approval \<noteq> [] \<and> mode course_product \<noteq> ''verified''
               then 1 else 0)"
proof -
  let ?c = "Call CommerceConfigurationCurrent (RBool automatic)"
  obtain evs1 w1 where d:
    "trace w1 = trace w @ ?c # evs1"
    "list_all approval_event evs1"
    "if automatic then approval_attempts evs1 = refund_ids else evs1 = []"
    "process_refund env refund_ids course_product is_entitlement w =
       notify_refunds_requiring_approval env course_product is_entitlement
         (if automatic then failed_approvals evs1 else refund_ids) w1"
    using cfg by (rule process_refund_decompose)
  let ?needs = "if automatic then failed_approvals evs1 else refund_ids"
  obtain evs2 w2 where n:
    "notify_refunds_requiring_approval env course_product is_entitlement ?needs w1 = (Inr (), w2)"
    "trace w2 = trace w1 @ evs2"
    "list_all branch_event evs2"
    "notification_attempted evs2 = (?needs \<noteq> [] \<and> mode course_product = ''verified'')"
    "length (suppression_logs evs2) =
       (if ?needs \<noteq> [] \<and> mode course_product \<noteq> ''verified'' then 1 else 0)"
    by (rule notify_refunds_requiring_approval_run)
  have res: "r = Inr ()" "w' = w2" using run d(4) n(1) by simp_all
  have ev: "events_since w w' = [?c] @ evs1 @ evs2"
    using res(2) n(2) d(1) by (simp add: events_since_def)
  have fa: "failed_approvals (events_since w w') = failed_approvals evs1"
    unfolding ev using branch_events_no_approval(2) [OF n(3)] by (simp add: failed_approvals_def)
  have na: "notification_attempted (events_since w w') = notification_attempted evs2"
    unfolding ev notification_attempted_append using approval_events_silent(1) [OF d(2)]
    by (simp add: notification_attempted_def)
  have sl: "suppression_logs (events_since w w') = suppression_logs evs2"
    unfolding ev suppression_logs_append using approval_events_silent(2) [OF d(2)]
    by (simp add: suppression_logs_def)
  show ?thesis
    unfolding Let_def fa na sl using res(1) n(4) n(5) by simp
qed

theorem process_refund_suppresses_unverified_witness:
  "enable_automatic_refund_approval example_env (trace empty_world) = Inr True \<and>
   failed_approvals (events_since empty_world
      (snd (process_refund example_env [1, 2, 3] (example_product\<lparr>mode := ''honor''\<rparr>) False
              empty_world))) = [2] \<and>
   mode (example_product\<lparr>mode := ''honor''\<rparr>) \<noteq> ''verified'' \<and>
   fst (process_refund example_env [1, 2, 3] (example_product\<lparr>mode := ''honor''\<rparr>) False
          empty_world) = Inr () \<and>
   \<not> notification_attempted (events_since empty_world
      (snd (process_refund example_env [1, 2, 3] (example_product\<lparr>mode := ''honor''\<rparr>) False
              empty_world))) \<and>
   length (suppression_logs (events_since empty_world
      (snd (process_refund example_env [1, 2, 3] (example_product\<lparr>mode := ''honor''\<rparr>) False
              empty_world)))) = 1 \<and>
   failed_approvals (events_since empty_world
      (snd (process_refund example_env [1, 3] example_product False empty_world))) = [] \<and>
   \<not> notification_attempted (events_since empty_world
      (snd (process_refund example_env [1, 3] example_product False empty_world))) \<and>
   length (suppression_logs (events_since empty_world
      (snd (process_refund example_env [1, 3] example_product False empty_world)))) = 0"
proof -
  let ?p = "example_product\<lparr>mode := ''honor''\<rparr>"
  let ?run = "process_refund example_env [1, 2, 3] ?p False empty_world"
  let ?clean = "process_refund example_env [1, 3] example_product False empty_world"
  have cfg: "enable_automatic_refund_approval example_env (trace empty_world) = Inr True"
    by (simp add: example_env_def)
  have run: "?run = (fst ?run, snd ?run)" and clean: "?clean = (fst ?clean, snd ?clean)"
    by simp_all
  have failed: "failed_approvals (events_since empty_world (snd ?run)) = [2]"
    by (simp add: process_refund_def notify_refunds_requiring_approval_def prog_defs example_defs
          events_since_def failed_approvals_def)
  have none: "failed_approvals (events_since empty_world (snd ?clean)) = []"
    by (simp add: process_refund_def notify_refunds_requiring_approval_def prog_defs example_defs
          events_since_def failed_approvals_def)
  have m: "mode ?p \<noteq> ''verified''" by (simp add: example_product_def)
  have 1: "fst ?run = Inr () \<and> \<not> notification_attempted (events_since empty_world (snd ?run)) \<and>
           length (suppression_logs (events_since empty_world (snd ?run))) = 1"
    using process_refund_suppresses_unverified [OF cfg run] failed m by (simp add: Let_def)
  have 2: "\<not> notification_attempted (events_since empty_world (snd ?clean)) \<and>
           length (suppression_logs (events_since empty_world (snd ?clean))) = 0"
    using process_refund_suppresses_unverified [OF cfg clean] none by (simp add: Let_def)
  show ?thesis using cfg failed m 1 none 2 by (intro conjI) simp_all
qed

subsection \<open>C6: without automatic approval every refund id requires approval\<close>

text \<open>
  C6. In \<open>_process_refund\<close>, when \<open>enable_automatic_refund_approval\<close> is false, no approval
  call is made, and the function continues as the notification branch on the whole list of
  opened refund ids.
\<close>

theorem process_refund_without_automatic_approval:
  assumes cfg: "enable_automatic_refund_approval env (trace w) = Inr False"
    and run: "process_refund env refund_ids course_product is_entitlement w = (r, w')"
  shows "approval_attempts (events_since w w') = [] \<and>
         (r, w') = notify_refunds_requiring_approval env course_product is_entitlement refund_ids
                     (emit (Call CommerceConfigurationCurrent (RBool False)) w)"
proof -
  let ?w0 = "emit (Call CommerceConfigurationCurrent (RBool False)) w"
  have eq: "process_refund env refund_ids course_product is_entitlement w =
              notify_refunds_requiring_approval env course_product is_entitlement refund_ids ?w0"
    using cfg by (simp add: process_refund_def and_then_def perform_def returns_def Let_def)
  obtain evs2 w2 where n:
    "notify_refunds_requiring_approval env course_product is_entitlement refund_ids ?w0 = (Inr (), w2)"
    "trace w2 = trace ?w0 @ evs2"
    "list_all branch_event evs2"
    by (rule notify_refunds_requiring_approval_run
          [of env course_product is_entitlement refund_ids ?w0])
  have "w' = w2" using run eq n(1) by simp
  then have ev: "events_since w w' = [Call CommerceConfigurationCurrent (RBool False)] @ evs2"
    using n(2) by (simp add: events_since_def emit_def)
  have "approval_attempts (events_since w w') = []"
    unfolding ev using branch_events_no_approval(1) [OF n(3)] by (simp add: approval_attempts_def)
  then show ?thesis using run eq by simp
qed

theorem process_refund_without_automatic_approval_witness:
  "enable_automatic_refund_approval
     (example_env\<lparr>enable_automatic_refund_approval := \<lambda>h. Inr False\<rparr>) (trace empty_world) = Inr False \<and>
   approval_attempts (events_since empty_world
      (snd (process_refund (example_env\<lparr>enable_automatic_refund_approval := \<lambda>h. Inr False\<rparr>)
              [1, 2, 3] example_product False empty_world))) = []"
proof -
  let ?env = "example_env\<lparr>enable_automatic_refund_approval := \<lambda>h. Inr False\<rparr>"
  let ?run = "process_refund ?env [1, 2, 3] example_product False empty_world"
  have cfg: "enable_automatic_refund_approval ?env (trace empty_world) = Inr False"
    by simp
  have run: "?run = (fst ?run, snd ?run)" by simp
  have "approval_attempts (events_since empty_world (snd ?run)) = []"
    by (rule conjunct1 [OF process_refund_without_automatic_approval [OF cfg run]])
  with cfg show ?thesis by (rule conjI)
qed

subsection \<open>C3: a failed notification does not fail the refund\<close>

text \<open>
  C3. Whatever exception \<open>send_refund_notification\<close> raises, \<open>_process_refund\<close> catches it,
  logs the warning and returns normally. On a themed site \<open>send_refund_notification\<close> raises
  \<open>NotImplementedError\<close>. And whenever \<open>refund_seat\<close> or \<open>refund_entitlement\<close> got as far as
  attempting a notification, it returns the refund ids that \<open>refunds.post\<close> opened, whether the
  notification raised or not.
\<close>

theorem notification_failure_is_caught:
  "(send_refund_notification env course_product needs w1 = (Inl e, w2) \<and>
      needs \<noteq> [] \<and> mode course_product = ''verified'' \<longrightarrow>
    notify_refunds_requiring_approval env course_product is_entitlement needs w1 =
      (Inr (), emit (Log WARNING True ''Could not send email notification for refund.'' []) w2)) \<and>
   (is_request_in_themed_site env (trace w1) = Inr True \<longrightarrow>
    fst (send_refund_notification env course_product needs w1) =
      Inl (NotImplementedError ''Unable to send refund processing emails to support teams.'')) \<and>
   ((run = refund_seat env product w \<or> run = refund_entitlement env product w) \<and>
      notification_attempted (events_since w (snd run)) \<longrightarrow>
    (\<exists>refund_ids. fst run = Inr refund_ids \<and>
       opened_refunds (events_since w (snd run)) = [refund_ids]))"
proof (intro conjI impI)
  assume "send_refund_notification env course_product needs w1 = (Inl e, w2) \<and>
          needs \<noteq> [] \<and> mode course_product = ''verified''"
  then show "notify_refunds_requiring_approval env course_product is_entitlement needs w1 =
      (Inr (), emit (Log WARNING True ''Could not send email notification for refund.'' []) w2)"
    by (simp add: notify_refunds_requiring_approval_def try_except_def log_def)
next
  assume "is_request_in_themed_site env (trace w1) = Inr True"
  then show "fst (send_refund_notification env course_product needs w1) =
      Inl (NotImplementedError ''Unable to send refund processing emails to support teams.'')"
    by (simp add: send_refund_notification_def prog_defs)
next
  assume a: "(run = refund_seat env product w \<or> run = refund_entitlement env product w) \<and>
      notification_attempted (events_since w (snd run))"
  then obtain f is_entitlement where f:
    "(f = refund_seat \<and> \<not> is_entitlement) \<or> (f = refund_entitlement \<and> is_entitlement)"
    "f env product w = (fst run, snd run)"
    by (metis prod.collapse)
  from f show "\<exists>refund_ids. fst run = Inr refund_ids \<and>
       opened_refunds (events_since w (snd run)) = [refund_ids]"
  proof (cases rule: refund_flow_cases)
    case (failed e pre out rest)
    then have "events_since w (snd run) = pre" by (simp add: events_since_def)
    then show ?thesis using a setup_events_silent(2) [OF failed(3)] by simp
  next
    case (unopened pre out rest)
    then have "events_since w (snd run) = pre" by (simp add: events_since_def)
    then show ?thesis using a setup_events_silent(2) [OF unopened(3)] by simp
  next
    case (opened refund_ids pre r2 out rest)
    obtain evs where evs: "trace (snd run) = trace (w\<lparr>trace := trace w @ pre\<rparr>) @ evs"
      "list_all processing_event evs"
      "r2 = Inr () \<or> (\<exists>e. r2 = Inl e \<and> evs = [Call CommerceConfigurationCurrent (Raised e)])"
      using opened(4) by (rule process_refund_result)
    have ev: "events_since w (snd run) = pre @ evs" using evs(1) by (simp add: events_since_def)
    have "notification_attempted evs"
      using a setup_events_silent(2) [OF opened(2)] unfolding ev notification_attempted_append by simp
    then have "r2 = Inr ()" using evs(3) by (auto simp: notification_attempted_def)
    then have "fst run = Inr refund_ids" using opened(5) by simp
    moreover have "opened_refunds (events_since w (snd run)) = [refund_ids]"
      unfolding ev using opened(3) processing_events_open_nothing [OF evs(2)]
      by (simp add: opened_refunds_append)
    ultimately show ?thesis by simp
  qed
qed

theorem notification_failure_is_caught_witness:
  "send_refund_notification example_env example_product [2] empty_world =
     (Inl (NotImplementedError ''Unable to send refund processing emails to support teams.''),
      \<lparr>trace = [Call IsRequestInThemedSite (RBool True)], heap = [[''auto_refund'']]\<rparr>) \<and>
   mode example_product = ''verified'' \<and>
   is_request_in_themed_site example_env (trace empty_world) = Inr True \<and>
   notification_attempted (events_since empty_world
      (snd (refund_seat example_env example_product empty_world))) \<and>
   notify_refunds_requiring_approval example_env example_product False [2] empty_world =
     (Inr (), \<lparr>trace = [Call IsRequestInThemedSite (RBool True),
                         Log WARNING True ''Could not send email notification for refund.'' []],
               heap = [[''auto_refund'']]\<rparr>) \<and>
   fst (refund_seat example_env example_product empty_world) = Inr [1, 2, 3]"
proof -
  let ?w2 = "\<lparr>trace = [Call IsRequestInThemedSite (RBool True)], heap = [[''auto_refund'']]\<rparr>"
  let ?e = "NotImplementedError ''Unable to send refund processing emails to support teams.''"
  let ?run = "refund_seat example_env example_product empty_world"
  have send: "send_refund_notification example_env example_product [2] empty_world = (Inl ?e, ?w2)"
    by (simp add: send_refund_notification_def prog_defs example_defs)
  have m: "mode example_product = ''verified''" by (simp add: example_product_def)
  have themed: "is_request_in_themed_site example_env (trace empty_world) = Inr True"
    by (simp add: example_env_def)
  have att: "notification_attempted (events_since empty_world (snd ?run))"
    by (simp add: refund_seat_def process_refund_def notify_refunds_requiring_approval_def
          send_refund_notification_def prog_defs example_defs events_since_def
          notification_attempted_def)
  have opened: "opened_refunds (events_since empty_world (snd ?run)) = [[1, 2, 3]]"
    by (simp add: refund_seat_def process_refund_def notify_refunds_requiring_approval_def
          send_refund_notification_def prog_defs example_defs events_since_def
          opened_refunds_def)
  note inst = notification_failure_is_caught [of example_env example_product "[2]" empty_world ?e ?w2
      False ?run example_product empty_world]
  have 1: "notify_refunds_requiring_approval example_env example_product False [2] empty_world =
             (Inr (), emit (Log WARNING True ''Could not send email notification for refund.'' []) ?w2)"
    using inst send m by simp
  have 3: "fst ?run = Inr [1, 2, 3]"
    using inst att opened by auto
  show ?thesis using send m themed att 1 3 by (simp add: emit_def)
qed

subsection \<open>C5: nothing happens when no refund is opened\<close>

text \<open>
  C5. For \<open>refund_seat\<close> and \<open>refund_entitlement\<close> alike: when \<open>refunds.post\<close> returns the
  empty list, the function returns the empty list, no approval call is made, no notification
  is attempted, and the last thing it does is to log that no refund was opened.
\<close>

theorem refund_flow_stops_without_refunds:
  assumes which: "run = refund_seat env course_product w \<or> run = refund_entitlement env course_product w"
    and empty: "[] \<in> set (opened_refunds (events_since w (snd run)))"
  shows "fst run = Inr [] \<and>
         approval_attempts (events_since w (snd run)) = [] \<and>
         \<not> notification_attempted (events_since w (snd run)) \<and>
         is_no_refund_log (last (events_since w (snd run)))"
proof -
  obtain f is_entitlement where f:
    "(f = refund_seat \<and> \<not> is_entitlement) \<or> (f = refund_entitlement \<and> is_entitlement)"
    "f env course_product w = (fst run, snd run)"
    using which by (metis prod.collapse)
  from f show ?thesis
  proof (cases rule: refund_flow_cases)
    case (failed e pre out rest)
    then have "events_since w (snd run) = pre" by (simp add: events_since_def)
    then show ?thesis using empty failed(4) by simp
  next
    case (unopened pre out rest)
    then have ev: "events_since w (snd run) = pre" by (simp add: events_since_def)
    show ?thesis
      unfolding ev using unopened(1,6) setup_events_silent [OF unopened(3)] by simp
  next
    case (opened refund_ids pre r2 out rest)
    obtain evs where evs: "trace (snd run) = trace (w\<lparr>trace := trace w @ pre\<rparr>) @ evs"
      "list_all processing_event evs"
      using opened(4) by (rule process_refund_result)
    have "events_since w (snd run) = pre @ evs" using evs(1) by (simp add: events_since_def)
    then have "opened_refunds (events_since w (snd run)) = [refund_ids]"
      using opened(3) processing_events_open_nothing [OF evs(2)] by (simp add: opened_refunds_append)
    then show ?thesis using empty opened(1) by simp
  qed
qed

theorem refund_flow_stops_without_refunds_witness:
  "[] \<in> set (opened_refunds (events_since empty_world
      (snd (refund_seat (example_env\<lparr>refunds_post := \<lambda>h payload. Inr []\<rparr>) example_product empty_world)))) \<and>
   fst (refund_seat (example_env\<lparr>refunds_post := \<lambda>h payload. Inr []\<rparr>) example_product empty_world) = Inr [] \<and>
   approval_attempts (events_since empty_world
      (snd (refund_seat (example_env\<lparr>refunds_post := \<lambda>h payload. Inr []\<rparr>) example_product empty_world))) = [] \<and>
   \<not> notification_attempted (events_since empty_world
      (snd (refund_seat (example_env\<lparr>refunds_post := \<lambda>h payload. Inr []\<rparr>) example_product empty_world))) \<and>
   [] \<in> set (opened_refunds (events_since empty_world
      (snd (refund_entitlement (example_env\<lparr>refunds_post := \<lambda>h payload. Inr []\<rparr>) example_product empty_world)))) \<and>
   fst (refund_entitlement (example_env\<lparr>refunds_post := \<lambda>h payload. Inr []\<rparr>) example_product empty_world) = Inr []"
proof -
  let ?env = "example_env\<lparr>refunds_post := \<lambda>h payload. Inr []\<rparr>"
  let ?seat = "refund_seat ?env example_product empty_world"
  let ?ent = "refund_entitlement ?env example_product empty_world"
  have s: "[] \<in> set (opened_refunds (events_since empty_world (snd ?seat)))"
    by (simp add: refund_seat_def prog_defs example_defs events_since_def opened_refunds_def)
  have e: "[] \<in> set (opened_refunds (events_since empty_world (snd ?ent)))"
    by (simp add: refund_entitlement_def prog_defs example_defs events_since_def opened_refunds_def)
  show ?thesis
    using refund_flow_stops_without_refunds [of ?seat ?env example_product empty_world, OF _ s]
      refund_flow_stops_without_refunds [of ?ent ?env example_product empty_world, OF _ e] s e
    by simp
qed

subsection \<open>C4: what the handlers catch\<close>

text \<open>
  C4. The claim that the handlers never propagate an exception, whatever the collaborators do,
  does not hold: the clause of both \<open>try\<close> statements is \<open>except Exception\<close>, and an exception
  raised inside the \<open>try\<close> statement that is not an instance of \<open>Exception\<close> reaches the caller.
\<close>

theorem handlers_propagate_non_Exception_counterexample:
  "fst (handle_refund_order
          (example_env\<lparr>refunds_post := \<lambda>h payload. Inl SystemExit\<rparr>)
          (Some example_product) empty_world) = Inl SystemExit \<and>
   fst (handle_refund_entitlement
          (example_env\<lparr>get_current_request_user := \<lambda>h. Inl KeyboardInterrupt\<rparr>)
          (Some example_product) empty_world) = Inl KeyboardInterrupt"
  by (simp add: handle_refund_order_def handle_refund_entitlement_def refund_order_attempt_def
        refund_entitlement_attempt_def get_request_user_def refund_seat_def prog_defs example_defs)

text \<open>
  C4, as amended. When the body of the \<open>try\<close> statement of a handler (resolving the user and
  running the refund) raises an instance of \<open>Exception\<close>, the handler logs it with
  \<open>log.exception\<close> and returns normally; in \<open>handle_refund_entitlement\<close> this is so when
  \<open>str(exc)\<close>, an argument of the log call, has a value. When the body raises an exception
  that is not an instance of \<open>Exception\<close>, the handler propagates it and logs nothing.
\<close>

theorem handlers_catch_Exception:
  "(is_commerce_service_configured env (trace w) = Inr True \<and>
    refundable env (trace w @ [Call IsCommerceServiceConfigured (RBool True)]) ce = Inr True \<and>
    refund_order_attempt env ce
      (w\<lparr>trace := trace w @ [Call IsCommerceServiceConfigured (RBool True),
                              Call (Refundable ce) (RBool True)]\<rparr>) = (Inl e, w3) \<longrightarrow>
    handle_refund_order env (Some ce) w =
      (if is_Exception e
       then (Inr (), emit (Log ERROR True
                 ''Unexpected exception while attempting to initiate refund for user [%s], course [%s]''
                 [AInt (user_id (owner ce)), AStr (course_id ce)]) w3)
       else (Inl e, w3))) \<and>
   (is_commerce_service_configured env (trace w) = Inr True \<and>
    is_entitlement_refundable env (trace w @ [Call IsCommerceServiceConfigured (RBool True)]) ce = Inr True \<and>
    refund_entitlement_attempt env ce
      (w\<lparr>trace := trace w @ [Call IsCommerceServiceConfigured (RBool True),
                              Call (IsEntitlementRefundable ce) (RBool True)]\<rparr>) = (Inl e, w3) \<and>
    exn_str e = Inr message \<longrightarrow>
    handle_refund_entitlement env (Some ce) w =
      (if is_Exception e
       then (Inr (), emit (Log ERROR True
                 ''Unexpected exception while attempting to initiate refund for user [%s], course entitlement [%s] message: [%s]''
                 [AInt (user_id (owner ce)), AStr (uuid ce), AStr message]) w3)
       else (Inl e, w3)))"
proof (intro conjI impI)
  assume "is_commerce_service_configured env (trace w) = Inr True \<and>
    refundable env (trace w @ [Call IsCommerceServiceConfigured (RBool True)]) ce = Inr True \<and>
    refund_order_attempt env ce
      (w\<lparr>trace := trace w @ [Call IsCommerceServiceConfigured (RBool True),
                              Call (Refundable ce) (RBool True)]\<rparr>) = (Inl e, w3)"
  then show "handle_refund_order env (Some ce) w =
      (if is_Exception e
       then (Inr (), emit (Log ERROR True
                 ''Unexpected exception while attempting to initiate refund for user [%s], course [%s]''
                 [AInt (user_id (owner ce)), AStr (course_id ce)]) w3)
       else (Inl e, w3))"
    by (simp add: handle_refund_order_def and_then_def try_except_Exception_def perform_def
          returns_def log_def emit_def Let_def)
next
  assume "is_commerce_service_configured env (trace w) = Inr True \<and>
    is_entitlement_refundable env (trace w @ [Call IsCommerceServiceConfigured (RBool True)]) ce = Inr True \<and>
    refund_entitlement_attempt env ce
      (w\<lparr>trace := trace w @ [Call IsCommerceServiceConfigured (RBool True),
                              Call (IsEntitlementRefundable ce) (RBool True)]\<rparr>) = (Inl e, w3) \<and>
    exn_str e = Inr message"
  then show "handle_refund_entitlement env (Some ce) w =
      (if is_Exception e
       then (Inr (), emit (Log ERROR True
                 ''Unexpected exception while attempting to initiate refund for user [%s], course entitlement [%s] message: [%s]''
                 [AInt (user_id (owner ce)), AStr (uuid ce), AStr message]) w3)
       else (Inl e, w3))"
    by (simp add: handle_refund_entitlement_def and_then_def try_except_Exception_def perform_def
          evaluate_def returns_def log_def emit_def Let_def)
qed

theorem handlers_catch_Exception_witness:
  "is_commerce_service_configured
     (example_env\<lparr>get_service_user := \<lambda>h name. Inl (OtherException ''DoesNotExist'')\<rparr>)
     (trace empty_world) = Inr True \<and>
   refundable
     (example_env\<lparr>get_service_user := \<lambda>h name. Inl (OtherException ''DoesNotExist'')\<rparr>)
     (trace empty_world @ [Call IsCommerceServiceConfigured (RBool True)]) example_product = Inr True \<and>
   fst (refund_order_attempt
          (example_env\<lparr>get_service_user := \<lambda>h name. Inl (OtherException ''DoesNotExist'')\<rparr>)
          example_product
          (empty_world\<lparr>trace := trace empty_world @
             [Call IsCommerceServiceConfigured (RBool True),
              Call (Refundable example_product) (RBool True)]\<rparr>)) = Inl (OtherException ''DoesNotExist'') \<and>
   fst (handle_refund_order
          (example_env\<lparr>get_service_user := \<lambda>h name. Inl (OtherException ''DoesNotExist'')\<rparr>)
          (Some example_product) empty_world) = Inr () \<and>
   is_handler_exception_log (last (trace
      (snd (handle_refund_order
              (example_env\<lparr>get_service_user := \<lambda>h name. Inl (OtherException ''DoesNotExist'')\<rparr>)
              (Some example_product) empty_world)))) \<and>
   is_entitlement_refundable
     (example_env\<lparr>get_service_user := \<lambda>h name. Inl (OtherException ''DoesNotExist'')\<rparr>)
     (trace empty_world @ [Call IsCommerceServiceConfigured (RBool True)]) example_product = Inr True \<and>
   fst (refund_entitlement_attempt
          (example_env\<lparr>get_service_user := \<lambda>h name. Inl (OtherException ''DoesNotExist'')\<rparr>)
          example_product
          (empty_world\<lparr>trace := trace empty_world @
             [Call IsCommerceServiceConfigured (RBool True),
              Call (IsEntitlementRefundable example_product) (RBool True)]\<rparr>)) =
     Inl (OtherException ''DoesNotExist'') \<and>
   exn_str (OtherException ''DoesNotExist'') = Inr ''DoesNotExist'' \<and>
   fst (handle_refund_entitlement
          (example_env\<lparr>get_service_user := \<lambda>h name. Inl (OtherException ''DoesNotExist'')\<rparr>)
          (Some example_product) empty_world) = Inr () \<and>
   is_handler_exception_log (last (trace
      (snd (handle_refund_entitlement
              (example_env\<lparr>get_service_user := \<lambda>h name. Inl (OtherException ''DoesNotExist'')\<rparr>)
              (Some example_product) empty_world))))"
proof -
  let ?env = "example_env\<lparr>get_service_user := \<lambda>h name. Inl (OtherException ''DoesNotExist'')\<rparr>"
  let ?w2 = "empty_world\<lparr>trace := trace empty_world @
               [Call IsCommerceServiceConfigured (RBool True),
                Call (Refundable example_product) (RBool True)]\<rparr>"
  let ?w2e = "empty_world\<lparr>trace := trace empty_world @
               [Call IsCommerceServiceConfigured (RBool True),
                Call (IsEntitlementRefundable example_product) (RBool True)]\<rparr>"
  let ?body = "refund_order_attempt ?env example_product ?w2"
  let ?bodye = "refund_entitlement_attempt ?env example_product ?w2e"
  let ?run = "handle_refund_order ?env (Some example_product) empty_world"
  let ?rune = "handle_refund_entitlement ?env (Some example_product) empty_world"
  have c: "is_commerce_service_configured ?env (trace empty_world) = Inr True"
    by (simp add: example_env_def)
  have g: "refundable ?env (trace empty_world @ [Call IsCommerceServiceConfigured (RBool True)])
             example_product = Inr True"
    by (simp add: example_env_def)
  have ge: "is_entitlement_refundable ?env
              (trace empty_world @ [Call IsCommerceServiceConfigured (RBool True)])
              example_product = Inr True"
    by (simp add: example_env_def)
  have b: "?body = (Inl (OtherException ''DoesNotExist''), snd ?body)"
    by (simp add: refund_order_attempt_def get_request_user_def refund_seat_def prog_defs example_defs)
  have be: "?bodye = (Inl (OtherException ''DoesNotExist''), snd ?bodye)"
    by (simp add: refund_entitlement_attempt_def get_request_user_def refund_entitlement_def
          prog_defs example_defs)
  have s: "exn_str (OtherException ''DoesNotExist'') = Inr ''DoesNotExist''" by simp
  note inst = handlers_catch_Exception
    [where env = ?env and w = empty_world and ce = example_product
       and e = "OtherException ''DoesNotExist''" and ?w3.0 = "snd ?body"]
  note inste = handlers_catch_Exception
    [where env = ?env and w = empty_world and ce = example_product
       and e = "OtherException ''DoesNotExist''" and ?w3.0 = "snd ?bodye"
       and message = "''DoesNotExist''"]
  note caught = mp [OF inst [THEN conjunct1] conjI [OF c conjI [OF g b]]]
  note caught_e = mp [OF inste [THEN conjunct2] conjI [OF c conjI [OF ge conjI [OF be s]]]]
  have 1: "fst ?run = Inr ()" unfolding caught by simp
  have 3: "is_handler_exception_log (last (trace (snd ?run)))"
    unfolding caught by (simp add: emit_def)
  have e1: "fst ?rune = Inr ()" unfolding caught_e by simp
  have e3: "is_handler_exception_log (last (trace (snd ?rune)))"
    unfolding caught_e by (simp add: emit_def)
  have b': "fst ?body = Inl (OtherException ''DoesNotExist'')"
    by (subst b) simp
  have be': "fst ?bodye = Inl (OtherException ''DoesNotExist'')"
    by (subst be) simp
  show ?thesis by (intro conjI c g b' 1 3 ge be' s e1 e3)
qed

subsection \<open>C7: an entitlement is refunded only for its owner\<close>

text \<open>
  C7. \<open>handle_refund_entitlement\<close> invokes \<open>refund_entitlement\<close> if and only if the commerce
  service is configured, the entitlement is there and refundable, and the current request has
  a user who is the owner of the entitlement. When it does not invoke it (no request user, an
  anonymous one, or a user who is not the owner), it makes no outbound call.
\<close>

theorem entitlement_refund_requires_owner:
  assumes run: "handle_refund_entitlement env course_entitlement w = (r, w')"
  shows "refund_attempted (events_since w w') =
           (\<exists>ce u. course_entitlement = Some ce \<and>
              Call IsCommerceServiceConfigured (RBool True) \<in> set (events_since w w') \<and>
              Call (IsEntitlementRefundable ce) (RBool True) \<in> set (events_since w w') \<and>
              Call GetCurrentRequest (RUser (RequestUser u)) \<in> set (events_since w w') \<and>
              user_id u = user_id (owner ce)) \<and>
         (\<not> refund_attempted (events_since w w') \<longrightarrow> outbound_calls (events_since w w') = [])"
  using run
proof (cases rule: handle_refund_entitlement_cases)
  case (config_raised e)
  then show ?thesis by (simp add: events_since_def refund_attempted_def outbound_calls_def)
next
  case unconfigured
  then show ?thesis by (simp add: events_since_def refund_attempted_def outbound_calls_def)
next
  case no_product
  then show ?thesis by (simp add: events_since_def refund_attempted_def outbound_calls_def)
next
  case (check_raised ce e)
  then show ?thesis by (simp add: events_since_def refund_attempted_def outbound_calls_def)
next
  case (not_refundable ce)
  then show ?thesis by (simp add: events_since_def refund_attempted_def outbound_calls_def)
next
  case (unresolved ce e tail)
  then show ?thesis
    by (simp add: events_since_def refund_attempted_def outbound_calls_def
          handler_logs_silent [OF unresolved(3)])
next
  case (no_match ce ru)
  have "\<not> (\<exists>u. ru = RequestUser u \<and> user_id u = user_id (owner ce))"
    using no_match(3) by auto
  then show ?thesis
    using no_match(1,4) by (auto simp: events_since_def refund_attempted_def outbound_calls_def)
next
  case (refund ce ru r3 w3 tail)
  let ?pre = "[Call IsCommerceServiceConfigured (RBool True),
               Call (IsEntitlementRefundable ce) (RBool True),
               Call GetCurrentRequest (RUser ru)]"
  obtain out rest where flow:
    "trace w3 = trace (w\<lparr>trace := trace w @ ?pre\<rparr>) @
       Call (GetServiceUser (ECOMMERCE_SERVICE_WORKER_USERNAME env)) out # rest"
    using refund_flow_events [of refund_entitlement True env ce _ r3 w3] refund(4) by blast
  note tail = refund(5)
  let ?evs = "?pre @ Call (GetServiceUser (ECOMMERCE_SERVICE_WORKER_USERNAME env)) out # rest @ tail"
  have ev: "events_since w w' = ?evs"
    using flow(1) tail by (simp add: events_since_def)
  obtain u where u: "ru = RequestUser u" "user_id u = user_id (owner ce)"
    using refund(3) by (cases ru) simp_all
  have att: "refund_attempted (events_since w w')"
    unfolding ev by (simp add: refund_attempted_def)
  have "course_entitlement = Some ce \<and>
        Call IsCommerceServiceConfigured (RBool True) \<in> set (events_since w w') \<and>
        Call (IsEntitlementRefundable ce) (RBool True) \<in> set (events_since w w') \<and>
        Call GetCurrentRequest (RUser (RequestUser u)) \<in> set (events_since w w') \<and>
        user_id u = user_id (owner ce)"
    unfolding ev using refund(1) u by simp
  then show ?thesis using att by blast
qed

theorem entitlement_refund_requires_owner_witness:
  "refund_attempted (events_since empty_world
      (snd (handle_refund_entitlement example_env (Some example_product) empty_world))) \<and>
   (\<exists>ce u. Some example_product = Some ce \<and>
      Call GetCurrentRequest (RUser (RequestUser u)) \<in> set (events_since empty_world
        (snd (handle_refund_entitlement example_env (Some example_product) empty_world))) \<and>
      user_id u = user_id (owner ce)) \<and>
   \<not> refund_attempted (events_since empty_world
      (snd (handle_refund_entitlement
              (example_env\<lparr>get_current_request_user :=
                 \<lambda>h. Inr (RequestUser (example_user\<lparr>user_id := 8\<rparr>))\<rparr>)
              (Some example_product) empty_world))) \<and>
   outbound_calls (events_since empty_world
      (snd (handle_refund_entitlement
              (example_env\<lparr>get_current_request_user :=
                 \<lambda>h. Inr (RequestUser (example_user\<lparr>user_id := 8\<rparr>))\<rparr>)
              (Some example_product) empty_world))) = []"
proof -
  let ?own = "handle_refund_entitlement example_env (Some example_product) empty_world"
  let ?other = "handle_refund_entitlement
                  (example_env\<lparr>get_current_request_user :=
                     \<lambda>h. Inr (RequestUser (example_user\<lparr>user_id := 8\<rparr>))\<rparr>)
                  (Some example_product) empty_world"
  have a: "refund_attempted (events_since empty_world (snd ?own))"
    by (simp add: handle_refund_entitlement_def refund_entitlement_attempt_def get_request_user_def
          refund_entitlement_def process_refund_def notify_refunds_requiring_approval_def
          send_refund_notification_def prog_defs example_defs events_since_def refund_attempted_def)
  have b: "\<not> refund_attempted (events_since empty_world (snd ?other))"
    by (simp add: handle_refund_entitlement_def refund_entitlement_attempt_def get_request_user_def
          prog_defs example_defs events_since_def refund_attempted_def)
  have ro: "?own = (fst ?own, snd ?own)" and rt: "?other = (fst ?other, snd ?other)" by simp_all
  have 1: "\<exists>ce u. Some example_product = Some ce \<and>
      Call GetCurrentRequest (RUser (RequestUser u)) \<in> set (events_since empty_world (snd ?own)) \<and>
      user_id u = user_id (owner ce)"
    using entitlement_refund_requires_owner [OF ro] a by blast
  have 2: "outbound_calls (events_since empty_world (snd ?other)) = []"
    using entitlement_refund_requires_owner [OF rt] b by blast
  show ?thesis using a b 1 2 by blast
qed

subsection \<open>C8: the acting user of an unenrollment\<close>

text \<open>
  C8. In \<open>handle_refund_order\<close>, when the request user is an \<open>AnonymousUser\<close> the handler
  returns normally without invoking \<open>refund_seat\<close> and makes no outbound call. When there is no
  request user, the owner of the enrollment takes its place and \<open>refund_seat\<close> is invoked.
\<close>

theorem anonymous_request_is_not_refunded:
  assumes run: "handle_refund_order env course_enrollment w = (r, w')"
  shows "(Call GetCurrentRequest (RUser AnonymousUser) \<in> set (events_since w w') \<longrightarrow>
            r = Inr () \<and> \<not> refund_attempted (events_since w w') \<and>
            outbound_calls (events_since w w') = []) \<and>
         (Call GetCurrentRequest (RUser NoUser) \<in> set (events_since w w') \<longrightarrow>
            (\<exists>ce. course_enrollment = Some ce \<and> or_user NoUser (owner ce) = RequestUser (owner ce)) \<and>
            refund_attempted (events_since w w'))"
  using run
proof (cases rule: handle_refund_order_cases)
  case (config_raised e)
  then show ?thesis by (simp add: events_since_def)
next
  case unconfigured
  then show ?thesis by (simp add: events_since_def)
next
  case no_product
  then show ?thesis by (simp add: events_since_def)
next
  case (check_raised ce e)
  then show ?thesis by (simp add: events_since_def)
next
  case (not_refundable ce)
  then show ?thesis by (simp add: events_since_def)
next
  case (unresolved ce e tail)
  then show ?thesis
    by (simp add: events_since_def handler_logs_silent [OF unresolved(4)])
next
  case (anonymous ce)
  then show ?thesis by (simp add: events_since_def refund_attempted_def outbound_calls_def)
next
  case (refund ce ru r3 w3 tail)
  let ?pre = "[Call IsCommerceServiceConfigured (RBool True), Call (Refundable ce) (RBool True),
               Call GetCurrentRequest (RUser ru)]"
  obtain out rest where flow:
    "trace w3 = trace (w\<lparr>trace := trace w @ ?pre\<rparr>) @
       Call (GetServiceUser (ECOMMERCE_SERVICE_WORKER_USERNAME env)) out # rest"
    "list_all (\<lambda>ev. setup_event ev \<or> processing_event ev) rest"
    using refund_flow_events [of refund_seat False env ce _ r3 w3] refund(4) by blast
  note tail = refund(5,6)
  let ?evs = "?pre @ Call (GetServiceUser (ECOMMERCE_SERVICE_WORKER_USERNAME env)) out # rest @ tail"
  have ev: "events_since w w' = ?evs"
    using flow(1) tail(1) by (simp add: events_since_def)
  have rest: "Call GetCurrentRequest u \<notin> set rest" for u
    using flow(2) refund_event_not_request by (auto simp: list_all_iff)
  have tl: "Call GetCurrentRequest u \<notin> set tail" for u
    using tail(2) by (rule handler_logs_silent)
  have att: "refund_attempted (events_since w w')"
    unfolding ev by (simp add: refund_attempted_def)
  have anon: "Call GetCurrentRequest (RUser AnonymousUser) \<notin> set (events_since w w')"
    unfolding ev using refund(3) rest tl by simp
  show ?thesis using att anon refund(1) by simp
qed

theorem anonymous_request_is_not_refunded_witness:
  "Call GetCurrentRequest (RUser AnonymousUser) \<in> set (events_since empty_world
      (snd (handle_refund_order (example_env\<lparr>get_current_request_user := \<lambda>h. Inr AnonymousUser\<rparr>)
              (Some example_product) empty_world))) \<and>
   fst (handle_refund_order (example_env\<lparr>get_current_request_user := \<lambda>h. Inr AnonymousUser\<rparr>)
          (Some example_product) empty_world) = Inr () \<and>
   outbound_calls (events_since empty_world
      (snd (handle_refund_order (example_env\<lparr>get_current_request_user := \<lambda>h. Inr AnonymousUser\<rparr>)
              (Some example_product) empty_world))) = [] \<and>
   Call GetCurrentRequest (RUser NoUser) \<in> set (events_since empty_world
      (snd (handle_refund_order (example_env\<lparr>get_current_request_user := \<lambda>h. Inr NoUser\<rparr>)
              (Some example_product) empty_world))) \<and>
   refund_attempted (events_since empty_world
      (snd (handle_refund_order (example_env\<lparr>get_current_request_user := \<lambda>h. Inr NoUser\<rparr>)
              (Some example_product) empty_world)))"
proof -
  let ?anon = "handle_refund_order (example_env\<lparr>get_current_request_user := \<lambda>h. Inr AnonymousUser\<rparr>)
                 (Some example_product) empty_world"
  let ?none = "handle_refund_order (example_env\<lparr>get_current_request_user := \<lambda>h. Inr NoUser\<rparr>)
                 (Some example_product) empty_world"
  have a: "Call GetCurrentRequest (RUser AnonymousUser) \<in> set (events_since empty_world (snd ?anon))"
    by (simp add: handle_refund_order_def refund_order_attempt_def get_request_user_def prog_defs
          example_defs events_since_def)
  have n: "Call GetCurrentRequest (RUser NoUser) \<in> set (events_since empty_world (snd ?none))"
    by (simp add: handle_refund_order_def refund_order_attempt_def get_request_user_def
          refund_seat_def process_refund_def notify_refunds_requiring_approval_def
          send_refund_notification_def prog_defs example_defs events_since_def)
  have ra: "?anon = (fst ?anon, snd ?anon)" and rn: "?none = (fst ?none, snd ?none)" by simp_all
  show ?thesis
    using anonymous_request_is_not_refunded [OF ra] anonymous_request_is_not_refunded [OF rn] a n
    by simp
qed

subsection \<open>C9: what creating a ticket logs and what it raises\<close>

text \<open>
  C9. The claim that \<open>create_zendesk_ticket\<close> never raises, for any input and any answer of
  the remote side, does not hold. \<open>urljoin\<close> is called before the \<open>try\<close> statement and raises
  \<open>ValueError\<close> on a malformed \<open>ZENDESK_URL\<close>, and the clause is \<open>except Exception\<close>, which
  does not catch a \<open>KeyboardInterrupt\<close> raised during the request.
\<close>

theorem create_zendesk_ticket_raises_counterexample:
  "fst (create_zendesk_ticket
          (example_env\<lparr>ZENDESK_URL := Some ''http://[zendesk.example.com'',
                        urljoin := \<lambda>base path. if base = ''http://[zendesk.example.com''
                                                 then Inl (ValueError ''Invalid IPv6 URL'')
                                                 else Inr (base @ path)\<rparr>)
          ''A Learner'' ''learner@example.com'' ''[Refund] User-Requested Refund'' ''body'' None
          empty_world) = Inl (ValueError ''Invalid IPv6 URL'') \<and>
   fst (create_zendesk_ticket
          (example_env\<lparr>requests_post := \<lambda>h url payload usr pwd. Inl KeyboardInterrupt\<rparr>)
          ''A Learner'' ''learner@example.com'' ''[Refund] User-Requested Refund'' ''body'' None
          empty_world) = Inl KeyboardInterrupt"
  by (simp add: create_zendesk_ticket_def prog_defs example_defs)

text \<open>
  C9, as amended. When one of the three Zendesk settings is missing or empty,
  \<open>create_zendesk_ticket\<close> logs at debug level, makes no request and returns normally. When
  the request raises an instance of \<open>Exception\<close>, or answers with a status other than 201, the
  function logs the failure and returns normally. When the request raises an exception that
  is not an instance of \<open>Exception\<close>, the function propagates it.
\<close>

theorem create_zendesk_ticket_logs_request_failures:
  assumes run: "create_zendesk_ticket env name mail subj body tags w = (r, w')"
  shows "(\<not> (truthy (ZENDESK_URL env) \<and> truthy (ZENDESK_USER env) \<and> truthy (ZENDESK_API_KEY env)) \<longrightarrow>
            r = Inr () \<and>
            events_since w w' = [Log DEBUG False ''Zendesk is not configured. Cannot create a ticket.'' []]) \<and>
         (Call (RequestsPost url payload usr pwd) (Raised e) \<in> set (events_since w w') \<and>
          is_Exception e \<longrightarrow>
            r = Inr () \<and>
            last (events_since w w') = Log ERROR True ''Failed to create ticket.'' []) \<and>
         (Call (RequestsPost url payload usr pwd) (RResponse status content) \<in> set (events_since w w') \<and>
          status \<noteq> 201 \<longrightarrow>
            r = Inr () \<and>
            last (events_since w w') =
              Log ERROR False ''Failed to create ticket. Status: [%d], Body: [%s]''
                [AInt status, AStr content]) \<and>
         (Call (RequestsPost url payload usr pwd) (Raised e) \<in> set (events_since w w') \<and>
          \<not> is_Exception e \<longrightarrow>
            r = Inl e)"
proof (cases "truthy (ZENDESK_URL env) \<and> truthy (ZENDESK_USER env) \<and> truthy (ZENDESK_API_KEY env)")
  case False
  have "create_zendesk_ticket env name mail subj body tags w =
          (Inr (), emit (Log DEBUG False ''Zendesk is not configured. Cannot create a ticket.'' []) w)"
    using False by (rule create_zendesk_ticket_unconfigured)
  then have "r = Inr ()"
    "events_since w w' = [Log DEBUG False ''Zendesk is not configured. Cannot create a ticket.'' []]"
    using run by (auto simp: events_since_def emit_def)
  then show ?thesis by simp
next
  case True
  from True show ?thesis
  proof (cases rule: create_zendesk_ticket_configured
      [where name = name and mail = mail and subj = subj and body = body and tags = tags and w = w])
    case (unprepared e0 copied)
    then have "events_since w w' = []"
      using run by (auto simp: events_since_def)
    then show ?thesis using True by simp
  next
    case (posted url0 payload0 usr0 pwd0 out r0 tail copied)
    have res: "r = r0" "events_since w w' = Call (RequestsPost url0 payload0 usr0 pwd0) out # tail"
      using run posted(1) by (auto simp: events_since_def)
    from posted(3) show ?thesis
    proof (elim disjE exE conjE)
      fix e0
      assume "out = Raised e0" "is_Exception e0" "r0 = Inr ()"
        "tail = [Log ERROR True ''Failed to create ticket.'' []]"
      then show ?thesis using True res by auto
    next
      fix e0
      assume "out = Raised e0" "\<not> is_Exception e0" "r0 = Inl e0" "tail = []"
      then show ?thesis using True res by auto
    next
      fix status0 content0
      assume "out = RResponse status0 content0" "r0 = Inr ()"
        "tail = [if status0 \<noteq> 201
                 then Log ERROR False ''Failed to create ticket. Status: [%d], Body: [%s]''
                        [AInt status0, AStr content0]
                 else Log DEBUG False ''Successfully created ticket.'' []]"
      then show ?thesis using True res by auto
    qed
  qed
qed

theorem create_zendesk_ticket_logs_request_failures_witness:
  "\<not> (truthy (ZENDESK_URL (example_env\<lparr>ZENDESK_API_KEY := None\<rparr>)) \<and>
       truthy (ZENDESK_USER (example_env\<lparr>ZENDESK_API_KEY := None\<rparr>)) \<and>
       truthy (ZENDESK_API_KEY (example_env\<lparr>ZENDESK_API_KEY := None\<rparr>))) \<and>
   create_zendesk_ticket (example_env\<lparr>ZENDESK_API_KEY := None\<rparr>)
     ''A Learner'' ''learner@example.com'' ''[Refund] User-Requested Refund'' ''body'' None
     empty_world =
     (Inr (), \<lparr>trace = [Log DEBUG False ''Zendesk is not configured. Cannot create a ticket.'' []],
               heap = []\<rparr>) \<and>
   Call (RequestsPost ''https://zendesk.example.com/api/v2/tickets.json''
           ''ticket: [Refund] User-Requested Refund / body'' ''support@example.com/token'' ''key'')
        (RResponse 500 ''error'')
     \<in> set (events_since empty_world
         (snd (create_zendesk_ticket example_env
                 ''A Learner'' ''learner@example.com'' ''[Refund] User-Requested Refund'' ''body'' None
                 empty_world))) \<and>
   fst (create_zendesk_ticket example_env
          ''A Learner'' ''learner@example.com'' ''[Refund] User-Requested Refund'' ''body'' None
          empty_world) = Inr () \<and>
   last (events_since empty_world
     (snd (create_zendesk_ticket example_env
             ''A Learner'' ''learner@example.com'' ''[Refund] User-Requested Refund'' ''body'' None
             empty_world))) =
     Log ERROR False ''Failed to create ticket. Status: [%d], Body: [%s]'' [AInt 500, AStr ''error''] \<and>
   Call (RequestsPost ''https://zendesk.example.com/api/v2/tickets.json''
           ''ticket: [Refund] User-Requested Refund / body'' ''support@example.com/token'' ''key'')
        (Raised (OtherException ''ConnectionError''))
     \<in> set (events_since empty_world
         (snd (create_zendesk_ticket
                 (example_env\<lparr>requests_post :=
                    \<lambda>h url payload usr pwd. Inl (OtherException ''ConnectionError'')\<rparr>)
                 ''A Learner'' ''learner@example.com'' ''[Refund] User-Requested Refund'' ''body'' None
                 empty_world))) \<and>
   fst (create_zendesk_ticket
          (example_env\<lparr>requests_post :=
             \<lambda>h url payload usr pwd. Inl (OtherException ''ConnectionError'')\<rparr>)
          ''A Learner'' ''learner@example.com'' ''[Refund] User-Requested Refund'' ''body'' None
          empty_world) = Inr () \<and>
   last (events_since empty_world
     (snd (create_zendesk_ticket
             (example_env\<lparr>requests_post :=
                \<lambda>h url payload usr pwd. Inl (OtherException ''ConnectionError'')\<rparr>)
             ''A Learner'' ''learner@example.com'' ''[Refund] User-Requested Refund'' ''body'' None
             empty_world))) = Log ERROR True ''Failed to create ticket.'' [] \<and>
   Call (RequestsPost ''https://zendesk.example.com/api/v2/tickets.json''
           ''ticket: [Refund] User-Requested Refund / body'' ''support@example.com/token'' ''key'')
        (Raised GeneratorExit)
     \<in> set (events_since empty_world
         (snd (create_zendesk_ticket
                 (example_env\<lparr>requests_post := \<lambda>h url payload usr pwd. Inl GeneratorExit\<rparr>)
                 ''A Learner'' ''learner@example.com'' ''[Refund] User-Requested Refund'' ''body'' None
                 empty_world))) \<and>
   fst (create_zendesk_ticket
          (example_env\<lparr>requests_post := \<lambda>h url payload usr pwd. Inl GeneratorExit\<rparr>)
          ''A Learner'' ''learner@example.com'' ''[Refund] User-Requested Refund'' ''body'' None
          empty_world) = Inl GeneratorExit"
proof -
  let ?off = "example_env\<lparr>ZENDESK_API_KEY := None\<rparr>"
  let ?down = "example_env\<lparr>requests_post :=
                 \<lambda>h url payload usr pwd. Inl (OtherException ''ConnectionError'')\<rparr>"
  let ?exit = "example_env\<lparr>requests_post := \<lambda>h url payload usr pwd. Inl GeneratorExit\<rparr>"
  let ?t = "\<lambda>env. create_zendesk_ticket env ''A Learner'' ''learner@example.com''
                   ''[Refund] User-Requested Refund'' ''body'' None empty_world"
  let ?post = "RequestsPost ''https://zendesk.example.com/api/v2/tickets.json''
                 ''ticket: [Refund] User-Requested Refund / body'' ''support@example.com/token'' ''key''"
  have off: "\<not> (truthy (ZENDESK_URL ?off) \<and> truthy (ZENDESK_USER ?off) \<and> truthy (ZENDESK_API_KEY ?off))"
    by simp
  have r: "?t env = (fst (?t env), snd (?t env))" for env by simp
  note a = create_zendesk_ticket_logs_request_failures [OF r [of ?off]]
  note b = create_zendesk_ticket_logs_request_failures
    [OF r [of example_env], where url = "''https://zendesk.example.com/api/v2/tickets.json''"
       and payload = "''ticket: [Refund] User-Requested Refund / body''"
       and usr = "''support@example.com/token''" and pwd = "''key''"
       and status = 500 and content = "''error''"]
  note c = create_zendesk_ticket_logs_request_failures
    [OF r [of ?down], where url = "''https://zendesk.example.com/api/v2/tickets.json''"
       and payload = "''ticket: [Refund] User-Requested Refund / body''"
       and usr = "''support@example.com/token''" and pwd = "''key''"
       and e = "OtherException ''ConnectionError''"]
  note d = create_zendesk_ticket_logs_request_failures
    [OF r [of ?exit], where url = "''https://zendesk.example.com/api/v2/tickets.json''"
       and payload = "''ticket: [Refund] User-Requested Refund / body''"
       and usr = "''support@example.com/token''" and pwd = "''key''"
       and e = GeneratorExit]
  have a0: "fst (?t ?off) = Inr () \<and>
            events_since empty_world (snd (?t ?off)) =
              [Log DEBUG False ''Zendesk is not configured. Cannot create a ticket.'' []]"
    by (rule mp [OF a [THEN conjunct1] off])
  have hp: "heap (snd (?t ?off)) = []"
    by (simp add: create_zendesk_ticket_def prog_defs example_defs)
  have tr: "trace (snd (?t ?off)) =
              [Log DEBUG False ''Zendesk is not configured. Cannot create a ticket.'' []]"
    using a0 by (simp add: events_since_def empty_world_def)
  have a1: "?t ?off =
              (Inr (), \<lparr>trace = [Log DEBUG False ''Zendesk is not configured. Cannot create a ticket.'' []],
                        heap = []\<rparr>)"
    using a0 hp tr by (simp add: prod_eq_iff)
  have bm: "Call ?post (RResponse 500 ''error'') \<in> set (events_since empty_world (snd (?t example_env)))"
    by (simp add: create_zendesk_ticket_def prog_defs example_defs events_since_def)
  have ne: "(500::int) \<noteq> 201" by simp
  have b0: "fst (?t example_env) = Inr () \<and>
            last (events_since empty_world (snd (?t example_env))) =
              Log ERROR False ''Failed to create ticket. Status: [%d], Body: [%s]''
                [AInt 500, AStr ''error'']"
    by (rule mp [OF b [THEN conjunct2, THEN conjunct2, THEN conjunct1] conjI [OF bm ne]])
  have cm: "Call ?post (Raised (OtherException ''ConnectionError''))
              \<in> set (events_since empty_world (snd (?t ?down)))"
    by (simp add: create_zendesk_ticket_def prog_defs example_defs events_since_def)
  have ex: "is_Exception (OtherException ''ConnectionError'')" by simp
  have c0: "fst (?t ?down) = Inr () \<and>
            last (events_since empty_world (snd (?t ?down))) =
              Log ERROR True ''Failed to create ticket.'' []"
    by (rule mp [OF c [THEN conjunct2, THEN conjunct1] conjI [OF cm ex]])
  have dm: "Call ?post (Raised GeneratorExit) \<in> set (events_since empty_world (snd (?t ?exit)))"
    by (simp add: create_zendesk_ticket_def prog_defs example_defs events_since_def)
  have nex: "\<not> is_Exception GeneratorExit" by simp
  have d0: "fst (?t ?exit) = Inl GeneratorExit"
    by (rule mp [OF d [THEN conjunct2, THEN conjunct2, THEN conjunct2] conjI [OF dm nex]])
  show ?thesis
    by (intro conjI off a1 bm b0 [THEN conjunct1] b0 [THEN conjunct2] cm c0 [THEN conjunct1]
          c0 [THEN conjunct2] dm d0)
qed

subsection \<open>C10: the caller's list of tags is not modified\<close>

text \<open>
  C10. \<open>create_zendesk_ticket\<close> leaves the list object that the caller passed as \<open>tags\<close> as it
  was, and every other list object that existed before the call: \<open>'LMS'\<close> is appended to a
  copy, and the duplicates are removed in a second copy.
\<close>

theorem create_zendesk_ticket_keeps_tags:
  assumes valid: "a < length (heap w)"
  shows "list_at (snd (create_zendesk_ticket env name mail subj body (Some a) w)) a = list_at w a \<and>
         take (length (heap w)) (heap (snd (create_zendesk_ticket env name mail subj body (Some a) w))) =
           heap w"
proof (cases "truthy (ZENDESK_URL env) \<and> truthy (ZENDESK_USER env) \<and> truthy (ZENDESK_API_KEY env)")
  case False
  then show ?thesis
    by (simp add: create_zendesk_ticket_unconfigured emit_def list_at_def)
next
  case True
  obtain r evs copied where t:
    "create_zendesk_ticket env name mail subj body (Some a) w =
       (r, \<lparr>trace = evs,
             heap = heap w @ [copied @ [''LMS''], set_iteration env (copied @ [''LMS''])]\<rparr>)"
    using True
    by (cases rule: create_zendesk_ticket_configured
          [where name = name and mail = mail and subj = subj and body = body
             and tags = "Some a" and w = w])
       (rule that; assumption)+
  show ?thesis
    unfolding t using valid by (simp add: list_at_def nth_append)
qed

theorem create_zendesk_ticket_keeps_tags_witness:
  "(0::nat) < length (heap \<lparr>trace = [], heap = [[''auto_refund'']]\<rparr>) \<and>
   list_at (snd (create_zendesk_ticket example_env ''A Learner'' ''learner@example.com''
                   ''[Refund] User-Requested Refund'' ''body'' (Some 0)
                   \<lparr>trace = [], heap = [[''auto_refund'']]\<rparr>)) 0 = [''auto_refund''] \<and>
   heap (snd (create_zendesk_ticket example_env ''A Learner'' ''learner@example.com''
                ''[Refund] User-Requested Refund'' ''body'' (Some 0)
                \<lparr>trace = [], heap = [[''auto_refund'']]\<rparr>)) =
     [[''auto_refund''], [''auto_refund'', ''LMS''], [''auto_refund'', ''LMS'']]"
proof -
  let ?w = "\<lparr>trace = [], heap = [[''auto_refund'']]\<rparr>"
  have v: "(0::nat) < length (heap ?w)" by simp
  have h: "heap (snd (create_zendesk_ticket example_env ''A Learner'' ''learner@example.com''
                ''[Refund] User-Requested Refund'' ''body'' (Some 0) ?w)) =
             [[''auto_refund''], [''auto_refund'', ''LMS''], [''auto_refund'', ''LMS'']]"
    by (simp add: create_zendesk_ticket_def prog_defs example_defs)
  show ?thesis
    using create_zendesk_ticket_keeps_tags [OF v, of example_env "''A Learner''"
        "''learner@example.com''" "''[Refund] User-Requested Refund''" "''body''"] v h
    by (simp add: list_at_def)
qed

end
